theory Spec2Isabelle
  imports Main
begin

section \<open>Values that cross the client boundary\<close>

text \<open>
  The client decodes every response body into a Go \<^verbatim>\<open>map[string]interface{}\<close>.
  The dynamic values that \<^verbatim>\<open>encoding/json\<close> stores in such a map are nil, bool,
  float64, string, a slice and a nested map; the handlers only ever look at the dynamic
  type of a value (a type assertion) and at the contents of strings, so the payload of a
  number is kept as an integer.
\<close>

datatype json =
    JNull
  | JBool bool
  | JNumber int
  | JString string
  | JArray "json list"
  | JObject "(string \<times> json) list"

type_synonym info = "string \<rightharpoonup> json"

text \<open>
  A Go \<^verbatim>\<open>error\<close> value. \<open>DeadlineExceeded\<close> and \<open>Canceled\<close> are the two sentinel values
  of package \<^verbatim>\<open>context\<close>; \<open>ErrorString\<close> is what \<^verbatim>\<open>errors.New\<close> and a \<^verbatim>\<open>fmt.Errorf\<close>
  without \<^verbatim>\<open>%w\<close> build; \<open>WrapError\<close> is what \<^verbatim>\<open>fmt.Errorf\<close> with one \<^verbatim>\<open>%w\<close> builds (its
  full message and the wrapped error). A nil error is \<open>None\<close> of \<open>go_error option\<close>.
\<close>

datatype go_error =
    DeadlineExceeded
  | Canceled
  | ErrorString string
  | WrapError string go_error

fun Error :: "go_error \<Rightarrow> string" where
  "Error DeadlineExceeded = ''context deadline exceeded''"
| "Error Canceled = ''context canceled''"
| "Error (ErrorString s) = s"
| "Error (WrapError s e) = s"

section \<open>Time, contexts and the ticker\<close>

text \<open>
  Instants and \<^verbatim>\<open>time.Duration\<close> values are integers, counted in nanoseconds as Go does.
\<close>

definition Second :: int where
  "Second = 1000000000"

definition Minute :: int where
  "Minute = 60 * Second"

text \<open>
  A \<^verbatim>\<open>context.Context\<close> as the poll loop sees it: \<open>None\<close> is a context whose \<^verbatim>\<open>Done\<close>
  channel never closes; \<open>Some (t, e)\<close> is one whose \<^verbatim>\<open>Done\<close> channel is closed from
  instant \<open>t\<close> on, \<^verbatim>\<open>Err()\<close> returning \<open>e\<close> from then on.
\<close>

type_synonym go_context = "(int \<times> go_error) option"

text \<open>
  \<^verbatim>\<open>context.WithTimeout(parent, d)\<close> called at instant \<open>now\<close>: the child is done at the
  deadline \<open>now + d\<close> with \<^verbatim>\<open>context.DeadlineExceeded\<close>, unless the parent is done no later
  than that, in which case the child is done with the parent, with the parent's error.
\<close>

definition WithTimeout :: "go_context \<Rightarrow> int \<Rightarrow> int \<Rightarrow> go_context" where
  "WithTimeout parent now d =
     (case parent of
        None \<Rightarrow> Some (now + d, DeadlineExceeded)
      | Some (t, e) \<Rightarrow> if t \<le> now + d then Some (t, e) else Some (now + d, DeadlineExceeded))"

text \<open>
  A \<^verbatim>\<open>time.Ticker\<close> of period \<open>p\<close> sends on a channel of capacity one at every multiple of
  \<open>p\<close> after its creation and drops a tick when the channel is still full. \<open>tick_at\<close> is
  the instant from which the channel holds a tick; when that tick is received at instant
  \<open>t\<close> (no earlier than \<open>tick_at\<close>), the channel is filled again by the first tick of the
  ticker's grid that is later than \<open>t\<close>.
\<close>

definition next_tick :: "int \<Rightarrow> int \<Rightarrow> int \<Rightarrow> int" where
  "next_tick p tick_at t = tick_at + p * ((t - tick_at) div p + 1)"

section \<open>The readiness poll loop\<close>

text \<open>
  What the loop cannot decide itself is an input: the \<open>n\<close>-th call of
  \<^verbatim>\<open>c.GetInstance(id)\<close> (counted from 0) takes \<open>fst (GetInstance w id n)\<close> nanoseconds and
  returns \<open>snd (GetInstance w id n)\<close>; and when the \<^verbatim>\<open>select\<close> of iteration \<open>n\<close> finds both
  channels ready, Go chooses one of the two cases pseudo-randomly: \<open>select_done w n\<close>
  tells whether it is the \<^verbatim>\<open>ctx.Done()\<close> case.
\<close>

record poll_world =
  GetInstance :: "string \<Rightarrow> nat \<Rightarrow> nat \<times> (go_error + info)"
  select_done :: "nat \<Rightarrow> bool"

text \<open>
  The state at the head of an iteration: the instant \<open>now\<close> at which the \<^verbatim>\<open>select\<close> is
  entered, the instant \<open>tick_at\<close> from which \<^verbatim>\<open>ticker.C\<close> holds a tick, the instants of the
  \<^verbatim>\<open>GetInstance\<close> calls made so far, and the lines that \<^verbatim>\<open>tflog.Debug\<close> has written.
\<close>

record poll_state =
  now :: int
  tick_at :: int
  fetch_times :: "int list"
  debug_log :: "string list"

text \<open>
  What a session leaves behind: the error it returns (\<open>None\<close> is nil), the \<^verbatim>\<open>return\<close>
  statement that ended the loop, the instant of the return, the instants of all its
  \<^verbatim>\<open>GetInstance\<close> calls, and its debug lines.
\<close>

datatype exit_point = ExitCtxDone | ExitFetchError | ExitActive | ExitErrorState

record poll_result =
  ret :: "go_error option"
  exit_at :: exit_point
  returned_at :: int
  fetch_calls :: "int list"
  logged :: "string list"

text \<open>
  \<^verbatim>\<open>status, _ := info["status"].(string)\<close>: the empty string when the key is absent or
  its value is not a string.
\<close>

definition status_of :: "info \<Rightarrow> string" where
  "status_of i = (case i ''status'' of Some (JString s) \<Rightarrow> s | _ \<Rightarrow> [])"

definition debug_line :: "string \<Rightarrow> string \<Rightarrow> string \<Rightarrow> string" where
  "debug_line name instanceID status =
     ''instance [name: '' @ name @ '', id: '' @ instanceID @ ''] status='' @ status"

text \<open>
  The instant at which the \<^verbatim>\<open>select\<close> entered at \<open>now s\<close> wakes: the first instant at
  which one of its two channels is ready.
\<close>

definition wake_at :: "go_context \<Rightarrow> poll_state \<Rightarrow> int" where
  "wake_at ctx s =
     max (now s) (case ctx of None \<Rightarrow> tick_at s | Some (t, e) \<Rightarrow> min t (tick_at s))"

definition done_ready :: "go_context \<Rightarrow> int \<Rightarrow> bool" where
  "done_ready ctx t = (case ctx of None \<Rightarrow> False | Some (d, e) \<Rightarrow> d \<le> t)"

definition takes_done :: "poll_world \<Rightarrow> go_context \<Rightarrow> poll_state \<Rightarrow> bool" where
  "takes_done w ctx s =
     (done_ready ctx (wake_at ctx s) \<and>
      (tick_at s \<le> wake_at ctx s \<longrightarrow> select_done w (length (fetch_times s))))"

text \<open>One iteration of the \<^verbatim>\<open>for\<close> loop: a result when it returns, the next state otherwise.\<close>

definition poll_iter ::
  "poll_world \<Rightarrow> go_context \<Rightarrow> string \<Rightarrow> string \<Rightarrow> int \<Rightarrow> poll_state \<Rightarrow> poll_result + poll_state"
where
  "poll_iter w ctx name instanceID interval s =
     (let t = wake_at ctx s in
      if takes_done w ctx s then
        Inl \<lparr>ret = map_option snd ctx, exit_at = ExitCtxDone, returned_at = t,
             fetch_calls = fetch_times s, logged = debug_log s\<rparr>
      else
        (case GetInstance w instanceID (length (fetch_times s)) of
           (d, Inl err) \<Rightarrow>
             Inl \<lparr>ret = Some err, exit_at = ExitFetchError, returned_at = t + int d,
                  fetch_calls = fetch_times s @ [t], logged = debug_log s\<rparr>
         | (d, Inr i) \<Rightarrow>
             (let status = status_of i;
                  lg = debug_log s @ [debug_line name instanceID status]
              in if status = ''active'' then
                   Inl \<lparr>ret = None, exit_at = ExitActive, returned_at = t + int d,
                        fetch_calls = fetch_times s @ [t], logged = lg\<rparr>
                 else if status = ''error'' then
                   Inl \<lparr>ret = Some (ErrorString (''instance '' @ instanceID @ '' is in error state'')),
                        exit_at = ExitErrorState, returned_at = t + int d,
                        fetch_calls = fetch_times s @ [t], logged = lg\<rparr>
                 else
                   Inr \<lparr>now = t + int d, tick_at = next_tick interval (tick_at s) t,
                        fetch_times = fetch_times s @ [t], debug_log = lg\<rparr>)))"

partial_function (option) pollLoop ::
  "poll_world \<Rightarrow> go_context \<Rightarrow> string \<Rightarrow> string \<Rightarrow> int \<Rightarrow> poll_state \<Rightarrow> poll_result option"
where
  "pollLoop w ctx name instanceID interval s =
     (case poll_iter w ctx name instanceID interval s of
        Inl r \<Rightarrow> Some r
      | Inr s' \<Rightarrow> pollLoop w ctx name instanceID interval s')"

text \<open>
  \<^verbatim>\<open>pollInstanceStatus(ctx, c, name, id, interval)\<close>, entered at instant \<open>t0\<close>.
  \<^verbatim>\<open>time.NewTicker\<close> panics on a non-positive interval (\<open>Inl\<close>); otherwise the first tick
  is due one interval after \<open>t0\<close>. \<open>None\<close> is a loop that never returns.
\<close>

datatype panic = NonPositiveTickerInterval

definition poll_start :: "int \<Rightarrow> int \<Rightarrow> poll_state" where
  "poll_start interval t0 =
     \<lparr>now = t0, tick_at = t0 + interval, fetch_times = [], debug_log = []\<rparr>"

definition pollInstanceStatus ::
  "poll_world \<Rightarrow> go_context \<Rightarrow> string \<Rightarrow> string \<Rightarrow> int \<Rightarrow> int \<Rightarrow> (panic + poll_result) option"
where
  "pollInstanceStatus w ctx name instanceID interval t0 =
     (if interval \<le> 0 then Some (Inl NonPositiveTickerInterval)
      else map_option Inr (pollLoop w ctx name instanceID interval (poll_start interval t0)))"

text \<open>The first \<open>n\<close> iterations of the loop, for reasoning about runs.\<close>

primrec poll_iters ::
  "poll_world \<Rightarrow> go_context \<Rightarrow> string \<Rightarrow> string \<Rightarrow> int \<Rightarrow> nat \<Rightarrow> poll_state \<Rightarrow> poll_result + poll_state"
where
  "poll_iters w ctx name instanceID interval 0 s = Inr s"
| "poll_iters w ctx name instanceID interval (Suc n) s =
     (case poll_iter w ctx name instanceID interval s of
        Inl r \<Rightarrow> Inl r
      | Inr s' \<Rightarrow> poll_iters w ctx name instanceID interval n s')"

declare pollLoop.simps [code]

text \<open>
  The loop head of iteration \<open>k\<close> (the instant at which its \<^verbatim>\<open>select\<close> is entered, and the
  instant from which the ticker's channel holds a tick) in a run whose earlier iterations
  all took a tick and went on; \<open>tick_time\<close> is the instant at which that iteration
  receives its tick, which is when it calls \<^verbatim>\<open>GetInstance\<close>.
\<close>

primrec loop_head :: "poll_world \<Rightarrow> string \<Rightarrow> int \<Rightarrow> int \<Rightarrow> nat \<Rightarrow> int \<times> int" where
  "loop_head w instanceID interval t0 0 = (t0, t0 + interval)"
| "loop_head w instanceID interval t0 (Suc k) =
     (case loop_head w instanceID interval t0 k of
        (n, ta) \<Rightarrow> (max n ta + int (fst (GetInstance w instanceID k)),
                    next_tick interval ta (max n ta)))"

definition tick_time :: "poll_world \<Rightarrow> string \<Rightarrow> int \<Rightarrow> int \<Rightarrow> nat \<Rightarrow> int" where
  "tick_time w instanceID interval t0 k =
     (case loop_head w instanceID interval t0 k of (n, ta) \<Rightarrow> max n ta)"

text \<open>The status that the \<open>k\<close>-th fetch reports, when it succeeds.\<close>

definition fetched_status :: "poll_world \<Rightarrow> string \<Rightarrow> nat \<Rightarrow> string option" where
  "fetched_status w instanceID k =
     (case snd (GetInstance w instanceID k) of
        Inl err \<Rightarrow> None
      | Inr i \<Rightarrow> Some (status_of i))"

definition non_terminal :: "poll_world \<Rightarrow> string \<Rightarrow> nat \<Rightarrow> bool" where
  "non_terminal w instanceID k =
     (case fetched_status w instanceID k of
        None \<Rightarrow> False
      | Some st \<Rightarrow> st \<noteq> ''active'' \<and> st \<noteq> ''error'')"

text \<open>The state at the head of iteration \<open>k\<close> of a run whose earlier iterations went on.\<close>

definition head_state :: "poll_world \<Rightarrow> string \<Rightarrow> string \<Rightarrow> int \<Rightarrow> int \<Rightarrow> nat \<Rightarrow> poll_state" where
  "head_state w name instanceID interval t0 k =
     \<lparr>now = fst (loop_head w instanceID interval t0 k),
      tick_at = snd (loop_head w instanceID interval t0 k),
      fetch_times = map (tick_time w instanceID interval t0) [0..<k],
      debug_log = map (\<lambda>j. debug_line name instanceID
                              (case fetched_status w instanceID j of
                                 Some st \<Rightarrow> st | None \<Rightarrow> [])) [0..<k]\<rparr>"

text \<open>
  What a caller can tell of an error without reading its message: which sentinel of
  package \<^verbatim>\<open>context\<close> it is, or else its dynamic type.
\<close>

datatype error_variant = IsDeadlineExceeded | IsCanceled | IsErrorString | IsWrapError

fun variant :: "go_error \<Rightarrow> error_variant" where
  "variant DeadlineExceeded = IsDeadlineExceeded"
| "variant Canceled = IsCanceled"
| "variant (ErrorString s) = IsErrorString"
| "variant (WrapError s e) = IsWrapError"

section \<open>The client\<close>

text \<open>\<^verbatim>\<open>%d\<close> of a status code.\<close>

fun decimal :: "nat \<Rightarrow> string" where
  "decimal n =
     (if n < 10 then [''0123456789'' ! n]
      else decimal (n div 10) @ [''0123456789'' ! (n mod 10)])"

declare decimal.simps [simp del]

text \<open>
  What \<^verbatim>\<open>makeRequest\<close> makes of the HTTP exchange when there is no request body and a
  response is expected, as for \<^verbatim>\<open>GetInstance\<close>: the request could not be built, the
  transport failed, reading the body failed, or a response with a status code and a body
  arrived. \<^verbatim>\<open>json.Unmarshal\<close> is a parameter.
\<close>

datatype http_exchange =
    NewRequestFailed go_error
  | DoFailed go_error
  | ReadAllFailed go_error
  | Response nat string

definition makeRequest :: "(string \<Rightarrow> go_error + info) \<Rightarrow> http_exchange \<Rightarrow> go_error + info" where
  "makeRequest unmarshal x =
     (case x of
        NewRequestFailed err \<Rightarrow>
          Inl (WrapError (''failed to create request: '' @ Error err) err)
      | DoFailed err \<Rightarrow> Inl (WrapError (''failed to make request: '' @ Error err) err)
      | ReadAllFailed err \<Rightarrow> Inl (WrapError (''failed to read response body: '' @ Error err) err)
      | Response code body \<Rightarrow>
          if code \<noteq> 200 then
            Inl (ErrorString (''API request failed with status '' @ decimal code @ '': '' @ body))
          else
            (case unmarshal body of
               Inl err \<Rightarrow> Inl (WrapError (''failed to unmarshal response: '' @ Error err) err)
             | Inr result \<Rightarrow> Inr result))"

text \<open>The calls that a handler makes on the client, in order.\<close>

datatype client_call =
    CallCreateInstance info
  | CallGetInstance string
  | CallUpdateInstance string info
  | CallDeleteInstance string

section \<open>Terraform values and the resource model\<close>

datatype tf_string = StringNull | StringUnknown | StringValue string

datatype tf_bool = BoolNull | BoolUnknown | BoolValue bool

datatype tf_int64 = Int64Null | Int64Unknown | Int64Value int

datatype tf_list = ListNull | ListUnknown | ListValue "tf_string list"

fun ValueString :: "tf_string \<Rightarrow> string" where
  "ValueString (StringValue v) = v"
| "ValueString _ = []"

fun ValueBool :: "tf_bool \<Rightarrow> bool" where
  "ValueBool (BoolValue b) = b"
| "ValueBool _ = False"

fun set_string :: "tf_string \<Rightarrow> bool" where
  "set_string (StringValue v) = True"
| "set_string _ = False"

text \<open>
  \<^verbatim>\<open>Equal\<close> of two string values: the same state (null, unknown, known) and, when known,
  the same string.
\<close>

fun Equal :: "tf_string \<Rightarrow> tf_string \<Rightarrow> bool" where
  "Equal StringNull StringNull = True"
| "Equal StringUnknown StringUnknown = True"
| "Equal (StringValue a) (StringValue b) = (a = b)"
| "Equal _ _ = False"

record InstanceResourceModel =
  Id :: tf_string
  Cloud :: tf_string
  Region :: tf_string
  ShadeInstanceType :: tf_string
  ShadeCloud :: tf_bool
  Name :: tf_string
  Os :: tf_string
  SshKeyId :: tf_string
  TemplateId :: tf_string
  VolumeIds :: tf_list
  CloudInstanceType :: tf_string
  CloudAssignedID :: tf_string
  IP :: tf_string
  SshUser :: tf_string
  SshPort :: tf_int64
  Status :: tf_string
  CostEstimate :: tf_string
  HourlyPrice :: tf_string
  CreatedAt :: tf_string
  Timeouts :: "tf_string option"

text \<open>
  An error diagnostic: its summary and its detail. Warnings are not modelled, so a list
  of diagnostics has an error exactly when it is not empty.
\<close>

type_synonym diagnostic = "string \<times> string"

text \<open>
  Two operations of the plugin framework that the handlers rely on are parameters:
  \<^verbatim>\<open>ElementsAs\<close> of a list of strings into a \<^verbatim>\<open>[]string\<close>, with the diagnostics it
  reports, and \<^verbatim>\<open>time.ParseDuration\<close>.
\<close>

record framework =
  ElementsAs :: "tf_string list \<Rightarrow> diagnostic list \<times> string list"
  ParseDuration :: "string \<Rightarrow> go_error + int"

text \<open>
  \<^verbatim>\<open>plan.Timeouts.Create(ctx, defaultTimeout)\<close> of the timeouts block: the default when
  the \<^verbatim>\<open>create\<close> attribute is missing, null or unknown; the default with an error
  diagnostic when its string is not a duration; the configured duration otherwise.
\<close>

definition Timeouts_Create ::
  "framework \<Rightarrow> tf_string option \<Rightarrow> int \<Rightarrow> int \<times> diagnostic list"
where
  "Timeouts_Create fw timeouts defaultTimeout =
     (case timeouts of
        None \<Rightarrow> (defaultTimeout, [])
      | Some v \<Rightarrow>
          if \<not> set_string v then (defaultTimeout, [])
          else
            (case ParseDuration fw (ValueString v) of
               Inl err \<Rightarrow>
                 (defaultTimeout,
                  [(''Timeout Cannot Be Parsed'',
                    ''timeout for '' @ [CHR 0x22] @ ''create'' @ [CHR 0x22] @
                    '' cannot be parsed, '' @ Error err)])
             | Inr d \<Rightarrow> (d, [])))"

section \<open>The Create handler\<close>

record handler_result =
  diagnostics :: "diagnostic list"
  calls :: "client_call list"
  instanceInfo :: "info option"

definition defaultCreateTimeout :: int where
  "defaultCreateTimeout = 60 * Minute"

text \<open>The request body of \<^verbatim>\<open>Create\<close> before \<^verbatim>\<open>volume_ids\<close> is considered.\<close>

definition Create_requestBody :: "InstanceResourceModel \<Rightarrow> info" where
  "Create_requestBody plan =
     (let b0 = [''cloud'' \<mapsto> JString (ValueString (Cloud plan)),
                ''region'' \<mapsto> JString (ValueString (Region plan)),
                ''shade_instance_type'' \<mapsto> JString (ValueString (ShadeInstanceType plan)),
                ''shade_cloud'' \<mapsto> JBool (ValueBool (ShadeCloud plan)),
                ''name'' \<mapsto> JString (ValueString (Name plan))];
          b1 = (if set_string (Os plan) then b0(''os'' \<mapsto> JString (ValueString (Os plan)))
                else b0);
          b2 = (if set_string (TemplateId plan)
                then b1(''template_id'' \<mapsto> JString (ValueString (TemplateId plan)))
                else b1)
      in if set_string (SshKeyId plan)
         then b2(''ssh_key_id'' \<mapsto> JString (ValueString (SshKeyId plan)))
         else b2)"

text \<open>
  The arguments with which \<^verbatim>\<open>Create\<close> calls \<^verbatim>\<open>pollInstanceStatus\<close> at instant \<open>t\<close>, once the
  create timeout is known: the context with the timeout, the name, the instance id and
  the interval.
\<close>

definition Create_poll_args ::
  "go_context \<Rightarrow> int \<Rightarrow> InstanceResourceModel \<Rightarrow> string \<Rightarrow> int \<Rightarrow>
   go_context \<times> string \<times> string \<times> int"
where
  "Create_poll_args ctx t plan instanceID createTimeout =
     (WithTimeout ctx t createTimeout, ValueString (Name plan), instanceID, 15 * Second)"

text \<open>
  \<^verbatim>\<open>Create\<close>, from the decoding of the plan to the read of the instance that follows a
  successful poll; the copy of that read into the state is not part of the model.
  \<open>plan_get\<close> is what \<^verbatim>\<open>req.Plan.Get\<close> yields, \<open>created\<close> what \<^verbatim>\<open>CreateInstance\<close> returns,
  \<open>ctx\<close> the context of the request and \<open>t\<close> the instant at which the poll begins.
\<close>

definition Create ::
  "framework \<Rightarrow> poll_world \<Rightarrow> go_context \<Rightarrow> int \<Rightarrow>
   diagnostic list \<times> InstanceResourceModel \<Rightarrow> (go_error + info) \<Rightarrow>
   (panic + handler_result) option"
where
  "Create fw w ctx t plan_get created =
     (case plan_get of (diags0, plan) \<Rightarrow>
      if diags0 \<noteq> [] then
        Some (Inr \<lparr>diagnostics = diags0, calls = [], instanceInfo = None\<rparr>)
      else
        (let b = Create_requestBody plan;
             vols = (case VolumeIds plan of
                       ListValue vs \<Rightarrow> Some (ElementsAs fw vs)
                     | _ \<Rightarrow> None)
         in case vols of
              Some (d # ds, volumeIds) \<Rightarrow>
                Some (Inr \<lparr>diagnostics = d # ds, calls = [], instanceInfo = None\<rparr>)
            | _ \<Rightarrow>
           (let requestBody =
                  (case vols of
                     Some (ds, volumeIds) \<Rightarrow> b(''volume_ids'' \<mapsto> JArray (map JString volumeIds))
                   | None \<Rightarrow> b)
            in case created of
                 Inl err \<Rightarrow>
                   Some (Inr \<lparr>diagnostics =
                                [(''Error creating instance'',
                                  ''Could not create instance, unexpected error: '' @ Error err)],
                              calls = [CallCreateInstance requestBody], instanceInfo = None\<rparr>)
               | Inr result \<Rightarrow>
                   (case result ''id'' of
                      Some (JString instanceID) \<Rightarrow>
                        (case Timeouts_Create fw (Timeouts plan) defaultCreateTimeout of
                           (createTimeout, d # ds) \<Rightarrow>
                             Some (Inr \<lparr>diagnostics = d # ds,
                                        calls = [CallCreateInstance requestBody],
                                        instanceInfo = None\<rparr>)
                         | (createTimeout, []) \<Rightarrow>
                             (case Create_poll_args ctx t plan instanceID createTimeout of
                                (ctx', name, iid, interval) \<Rightarrow>
                             (case pollInstanceStatus w ctx' name iid interval t of
                                None \<Rightarrow> None
                              | Some (Inl p) \<Rightarrow> Some (Inl p)
                              | Some (Inr r) \<Rightarrow>
                                  (let polled = CallCreateInstance requestBody #
                                         map (\<lambda>_. CallGetInstance instanceID) (fetch_calls r)
                                   in case ret r of
                                        Some err \<Rightarrow>
                                          Some (Inr \<lparr>diagnostics =
                                            [(''Instance not ready'',
                                              ''timed out waiting for '' @ instanceID @
                                              '' to become active: '' @ Error err)],
                                            calls = polled, instanceInfo = None\<rparr>)
                                      | None \<Rightarrow>
                                          (case snd (GetInstance w instanceID
                                                       (length (fetch_calls r))) of
                                             Inl err \<Rightarrow>
                                               Some (Inr \<lparr>diagnostics =
                                                 [(''Error reading instance after create'',
                                                   ''Could not read instance, unexpected error: '' @
                                                   Error err)],
                                                 calls = polled @ [CallGetInstance instanceID],
                                                 instanceInfo = None\<rparr>)
                                           | Inr i \<Rightarrow>
                                               Some (Inr \<lparr>diagnostics = [],
                                                 calls = polled @ [CallGetInstance instanceID],
                                                 instanceInfo = Some i\<rparr>))))))
                    | _ \<Rightarrow>
                        Some (Inr \<lparr>diagnostics =
                                     [(''Error creating instance'',
                                       ''Could not extract instance ID from response'')],
                                   calls = [CallCreateInstance requestBody],
                                   instanceInfo = None\<rparr>)))))"

section \<open>The Update handler\<close>

text \<open>\<^verbatim>\<open>requestBody\<close> of \<^verbatim>\<open>Update\<close>: empty, then the name when the plan changes it.\<close>

definition Update_requestBody :: "InstanceResourceModel \<Rightarrow> InstanceResourceModel \<Rightarrow> info" where
  "Update_requestBody plan state =
     (if \<not> Equal (Name plan) (Name state)
      then Map.empty(''name'' \<mapsto> JString (ValueString (Name plan)))
      else Map.empty)"

text \<open>
  \<^verbatim>\<open>Update\<close>, from the decoding of plan and state to the read of the instance that follows
  the update; the copy of that read into the state is not part of the model. \<open>updated\<close>
  is what \<^verbatim>\<open>UpdateInstance\<close> returns and \<open>fetched\<close> what \<^verbatim>\<open>GetInstance\<close> returns.
\<close>

definition Update ::
  "diagnostic list \<times> InstanceResourceModel \<Rightarrow> diagnostic list \<times> InstanceResourceModel \<Rightarrow>
   go_error option \<Rightarrow> (go_error + info) \<Rightarrow> handler_result"
where
  "Update plan_get state_get updated fetched =
     (case (plan_get, state_get) of ((pd, plan), (sd, state)) \<Rightarrow>
      if pd @ sd \<noteq> [] then \<lparr>diagnostics = pd @ sd, calls = [], instanceInfo = None\<rparr>
      else
        (let requestBody = Update_requestBody plan state;
             sent = [CallUpdateInstance (ValueString (Id state)) requestBody]
         in case updated of
              Some err \<Rightarrow>
                \<lparr>diagnostics =
                   [(''Error updating instance'',
                     ''Could not update instance, unexpected error: '' @ Error err)],
                 calls = sent, instanceInfo = None\<rparr>
            | None \<Rightarrow>
                (case fetched of
                   Inl err \<Rightarrow>
                     \<lparr>diagnostics =
                        [(''Error reading instance after update'',
                          ''Could not read instance, unexpected error: '' @ Error err)],
                      calls = sent @ [CallGetInstance (ValueString (Id state))],
                      instanceInfo = None\<rparr>
                 | Inr i \<Rightarrow>
                     \<lparr>diagnostics = [],
                      calls = sent @ [CallGetInstance (ValueString (Id state))],
                      instanceInfo = Some i\<rparr>)))"

section \<open>A plan to run the handlers on\<close>

text \<open>
  The instance of the README's basic usage, as a plan: the attributes that the
  configuration does not set are null, the computed ones unknown, and there is no
  \<^verbatim>\<open>timeouts\<close> block.
\<close>

definition readme_plan :: InstanceResourceModel where
  "readme_plan =
     \<lparr>Id = StringUnknown, Cloud = StringValue ''scaleway'',
      Region = StringValue ''paris-france-1'', ShadeInstanceType = StringValue ''H100'',
      ShadeCloud = BoolValue True, Name = StringValue ''terraform-test-instance'',
      Os = StringNull, SshKeyId = StringUnknown, TemplateId = StringNull,
      VolumeIds = ListNull, CloudInstanceType = StringUnknown,
      CloudAssignedID = StringUnknown, IP = StringUnknown, SshUser = StringUnknown,
      SshPort = Int64Unknown, Status = StringUnknown, CostEstimate = StringUnknown,
      HourlyPrice = StringUnknown, CreatedAt = StringUnknown, Timeouts = None\<rparr>"

section \<open>Runs of the loop\<close>

text \<open>
  A run of \<open>pollLoop\<close> returns what one of its iterations returns, and only that.
\<close>

lemma poll_iters_Inl:
  "poll_iters w ctx name instanceID interval n s = Inl r \<Longrightarrow>
   pollLoop w ctx name instanceID interval s = Some r"
proof (induction n arbitrary: s)
  case 0
  then show ?case by simp
next
  case (Suc n)
  show ?case
  proof (cases "poll_iter w ctx name instanceID interval s")
    case (Inl r')
    with Suc.prems show ?thesis by (subst pollLoop.simps) simp
  next
    case (Inr s')
    with Suc.prems have "poll_iters w ctx name instanceID interval n s' = Inl r" by simp
    then have "pollLoop w ctx name instanceID interval s' = Some r" by (rule Suc.IH)
    with Inr show ?thesis by (subst pollLoop.simps) simp
  qed
qed

lemma poll_iters_Inr:
  "poll_iters w ctx name instanceID interval n s = Inr s' \<Longrightarrow>
   pollLoop w ctx name instanceID interval s = pollLoop w ctx name instanceID interval s'"
proof (induction n arbitrary: s)
  case 0
  then show ?case by simp
next
  case (Suc n)
  show ?case
  proof (cases "poll_iter w ctx name instanceID interval s")
    case (Inl r')
    with Suc.prems show ?thesis by simp
  next
    case (Inr s1)
    with Suc.prems have "poll_iters w ctx name instanceID interval n s1 = Inr s'" by simp
    then have "pollLoop w ctx name instanceID interval s1 =
               pollLoop w ctx name instanceID interval s'" by (rule Suc.IH)
    with Inr show ?thesis by (subst pollLoop.simps) simp
  qed
qed

lemma poll_iters_Suc_end:
  "poll_iters w ctx name instanceID interval (Suc n) s =
     (case poll_iters w ctx name instanceID interval n s of
        Inl r \<Rightarrow> Inl r
      | Inr s' \<Rightarrow> poll_iter w ctx name instanceID interval s')"
proof (induction n arbitrary: s)
  case 0
  show ?case by (simp split: sum.splits)
next
  case (Suc n)
  show ?case
  proof (cases "poll_iter w ctx name instanceID interval s")
    case (Inl r)
    then show ?thesis by simp
  next
    case (Inr s1)
    have "poll_iters w ctx name instanceID interval (Suc (Suc n)) s =
          poll_iters w ctx name instanceID interval (Suc n) s1"
      using Inr by (simp only: poll_iters.simps sum.case)
    also have "\<dots> = (case poll_iters w ctx name instanceID interval n s1 of
                         Inl r \<Rightarrow> Inl r
                       | Inr s' \<Rightarrow> poll_iter w ctx name instanceID interval s')"
      by (rule Suc.IH)
    also have "poll_iters w ctx name instanceID interval n s1 =
               poll_iters w ctx name instanceID interval (Suc n) s"
      using Inr by (simp only: poll_iters.simps sum.case)
    finally show ?thesis .
  qed
qed

lemma poll_iter_Inr_length:
  "poll_iter w ctx name instanceID interval s = Inr s' \<Longrightarrow>
   length (fetch_times s') = Suc (length (fetch_times s))"
  by (auto simp: poll_iter_def Let_def split: if_splits prod.splits sum.splits)

lemma poll_iters_Inr_length:
  "poll_iters w ctx name instanceID interval n s = Inr s' \<Longrightarrow>
   length (fetch_times s') = length (fetch_times s) + n"
proof (induction n arbitrary: s)
  case 0
  then show ?case by simp
next
  case (Suc n)
  then show ?case
    by (cases "poll_iter w ctx name instanceID interval s")
       (auto dest!: poll_iter_Inr_length)
qed

lemma pollInstanceStatus_reached:
  assumes "0 < interval"
    and "poll_iters w ctx name instanceID interval n (poll_start interval t0) = Inr s"
    and "poll_iter w ctx name instanceID interval s = Inl r"
  shows "pollInstanceStatus w ctx name instanceID interval t0 = Some (Inr r)"
proof -
  have "pollLoop w ctx name instanceID interval (poll_start interval t0) =
        pollLoop w ctx name instanceID interval s"
    using assms(2) by (rule poll_iters_Inr)
  also have "\<dots> = Some r"
    using assms(3) by (subst pollLoop.simps) simp
  finally show ?thesis
    using assms(1) by (simp add: pollInstanceStatus_def)
qed

lemma tick_time_Suc: 
  "tick_time w instanceID interval t0 k \<le> tick_time w instanceID interval t0 (Suc k)"
  by (auto simp: tick_time_def max_def split: prod.splits)

lemma tick_time_mono:
  "j \<le> k \<Longrightarrow> tick_time w instanceID interval t0 j \<le> tick_time w instanceID interval t0 k"
  by (rule lift_Suc_mono_le [of "tick_time w instanceID interval t0"]) (rule tick_time_Suc)

lemma tick_time_0: "0 < interval \<Longrightarrow> tick_time w instanceID interval t0 0 = t0 + interval"
  by (simp add: tick_time_def)

lemma done_ready_mono: "done_ready ctx t \<Longrightarrow> t \<le> t' \<Longrightarrow> done_ready ctx t'"
  by (auto simp: done_ready_def split: option.splits)

lemma wake_at_tick:
  "\<not> done_ready ctx (max (now s) (tick_at s)) \<Longrightarrow> wake_at ctx s = max (now s) (tick_at s)"
  by (auto simp: done_ready_def wake_at_def split: option.splits)



lemma head_state_0: "head_state w name instanceID interval t0 0 = poll_start interval t0"
  by (simp add: head_state_def poll_start_def)

lemma head_state_wake:
  "\<not> done_ready ctx (tick_time w instanceID interval t0 k) \<Longrightarrow>
   wake_at ctx (head_state w name instanceID interval t0 k) = tick_time w instanceID interval t0 k"
  by (auto simp: done_ready_def wake_at_def head_state_def tick_time_def
      split: option.splits prod.splits)

lemma head_state_not_done:
  "\<not> done_ready ctx (tick_time w instanceID interval t0 k) \<Longrightarrow>
   \<not> takes_done w ctx (head_state w name instanceID interval t0 k)"
  by (simp add: takes_done_def head_state_wake)

lemma poll_iter_head_pending:
  assumes "\<not> done_ready ctx (tick_time w instanceID interval t0 k)"
    and "non_terminal w instanceID k"
  shows "poll_iter w ctx name instanceID interval (head_state w name instanceID interval t0 k) =
         Inr (head_state w name instanceID interval t0 (Suc k))"
proof -
  obtain d res where g: "GetInstance w instanceID k = (d, res)"
    by (cases "GetInstance w instanceID k")
  from assms(2) g obtain i where res: "res = Inr i"
    and st: "status_of i \<noteq> ''active''" "status_of i \<noteq> ''error''"
    by (cases res) (auto simp: non_terminal_def fetched_status_def)
  have len: "length (fetch_times (head_state w name instanceID interval t0 k)) = k"
    by (simp add: head_state_def)
  have fs: "fetched_status w instanceID k = Some (status_of i)"
    using g res by (simp add: fetched_status_def)
  show ?thesis
    using head_state_not_done [OF assms(1), of name] head_state_wake [OF assms(1), of name]
      g res st len fs
    by (simp add: poll_iter_def Let_def)
       (simp add: head_state_def tick_time_def split: prod.splits)
qed

lemma pending_run:
  assumes "\<forall>j<k. non_terminal w instanceID j"
    and "\<forall>j<k. \<not> done_ready ctx (tick_time w instanceID interval t0 j)"
  shows "poll_iters w ctx name instanceID interval k (poll_start interval t0) =
         Inr (head_state w name instanceID interval t0 k)"
  using assms
proof (induction k)
  case 0
  show ?case by (simp add: head_state_0)
next
  case (Suc k)
  have "poll_iters w ctx name instanceID interval k (poll_start interval t0) =
        Inr (head_state w name instanceID interval t0 k)"
    using Suc by simp
  moreover have "poll_iter w ctx name instanceID interval (head_state w name instanceID interval t0 k) =
         Inr (head_state w name instanceID interval t0 (Suc k))"
    using Suc.prems by (intro poll_iter_head_pending) simp_all
  ultimately show ?case
    by (simp only: poll_iters_Suc_end sum.case)
qed

lemma terminal_run:
  assumes "0 < interval"
    and "\<forall>j<k. non_terminal w instanceID j"
    and "\<not> done_ready ctx (tick_time w instanceID interval t0 k)"
    and "poll_iter w ctx name instanceID interval (head_state w name instanceID interval t0 k) = Inl r"
  shows "pollInstanceStatus w ctx name instanceID interval t0 = Some (Inr r)"
proof -
  have "\<forall>j<k. \<not> done_ready ctx (tick_time w instanceID interval t0 j)"
    using assms(3) by (meson done_ready_mono tick_time_mono less_imp_le)
  with assms(2) have "poll_iters w ctx name instanceID interval k (poll_start interval t0) =
         Inr (head_state w name instanceID interval t0 k)"
    by (rule pending_run)
  with assms(1) show ?thesis
    using assms(4) by (rule pollInstanceStatus_reached)
qed

lemma loop_head_instant:
  assumes "0 < interval" and "\<forall>j. fst (GetInstance w instanceID j) = 0"
  shows "loop_head w instanceID interval t0 k =
         (t0 + (if k = 0 then 0 else int k * interval), t0 + (int k + 1) * interval)"
proof (induction k)
  case 0
  show ?case by simp
next
  case (Suc k)
  have "max (t0 + (if k = 0 then 0 else int k * interval)) (t0 + (int k + 1) * interval) =
        t0 + (int k + 1) * interval"
    using assms(1) by (simp add: algebra_simps)
  then show ?case
    using Suc assms by (simp add: next_tick_def algebra_simps)
qed

lemma tick_time_instant:
  assumes "0 < interval" and "\<forall>j. fst (GetInstance w instanceID j) = 0"
  shows "tick_time w instanceID interval t0 k = t0 + (int k + 1) * interval"
  using assms(1) by (simp add: tick_time_def loop_head_instant [OF assms] algebra_simps)

lemma next_tick_later:
  assumes "0 < p" and "ta \<le> t"
  shows "t < next_tick p ta t"
proof -
  have "(t - ta) mod p < p"
    using assms(1) by simp
  moreover have "t - ta = p * ((t - ta) div p) + (t - ta) mod p"
    by simp
  ultimately have "t - ta < p * ((t - ta) div p) + p"
    by linarith
  then show ?thesis
    by (simp add: next_tick_def algebra_simps)
qed

lemma done_first_run:
  assumes "0 < interval" and "\<forall>n. select_done w n"
    and "\<forall>t\<in>set (fetch_times s). t < dl"
    and "\<forall>n<length (fetch_times s). non_terminal w instanceID n"
  shows "\<exists>r. pollLoop w (Some (dl, e)) name instanceID interval s = Some r
           \<and> (\<forall>t\<in>set (fetch_calls r). t < dl)
           \<and> (exit_at r = ExitCtxDone) =
               (\<forall>n<length (fetch_calls r). non_terminal w instanceID n)
           \<and> (exit_at r = ExitCtxDone \<longrightarrow> ret r = Some e \<and> dl \<le> returned_at r)"
  using assms(3,4)
proof (induction s rule: measure_induct_rule [where f = "\<lambda>s. nat (dl - tick_at s)"])
  case (less s)
  let ?ctx = "Some (dl, e)"
  let ?t = "wake_at ?ctx s"
  let ?n = "length (fetch_times s)"
  show ?case
  proof (cases "done_ready ?ctx ?t")
    case True
    then have "takes_done w ?ctx s"
      using assms(2) by (simp add: takes_done_def)
    then have "poll_iter w ?ctx name instanceID interval s =
               Inl \<lparr>ret = Some e, exit_at = ExitCtxDone, returned_at = ?t,
                    fetch_calls = fetch_times s, logged = debug_log s\<rparr>"
      by (simp add: poll_iter_def Let_def)
    then have "pollLoop w ?ctx name instanceID interval s =
               Some \<lparr>ret = Some e, exit_at = ExitCtxDone, returned_at = ?t,
                     fetch_calls = fetch_times s, logged = debug_log s\<rparr>"
      by (subst pollLoop.simps) simp
    moreover have "dl \<le> ?t"
      using True by (simp add: done_ready_def)
    ultimately show ?thesis
      using less.prems by simp
  next
    case False
    then have before: "?t < dl"
      by (simp add: done_ready_def)
    then have ta: "tick_at s \<le> ?t" "tick_at s < dl"
      by (auto simp: wake_at_def split: if_splits)
    have nd: "\<not> takes_done w ?ctx s"
      using False by (simp add: takes_done_def)
    obtain d res where g: "GetInstance w instanceID ?n = (d, res)"
      by (cases "GetInstance w instanceID ?n")
    have calls: "\<forall>t\<in>set (fetch_times s @ [?t]). t < dl"
      using less.prems(1) before by simp
    show ?thesis
    proof (cases "non_terminal w instanceID ?n")
      case True
      with g obtain i where res: "res = Inr i"
        and st: "status_of i \<noteq> ''active''" "status_of i \<noteq> ''error''"
        by (cases res) (auto simp: non_terminal_def fetched_status_def)
      let ?s' = "\<lparr>now = ?t + int d, tick_at = next_tick interval (tick_at s) ?t,
                  fetch_times = fetch_times s @ [?t],
                  debug_log = debug_log s @ [debug_line name instanceID (status_of i)]\<rparr>"
      have step: "poll_iter w ?ctx name instanceID interval s = Inr ?s'"
        using nd g res st by (simp add: poll_iter_def Let_def)
      have "?t < tick_at ?s'"
        using next_tick_later [OF assms(1) ta(1)] by simp
      then have "nat (dl - tick_at ?s') < nat (dl - tick_at s)"
        using ta by linarith
      moreover have "\<forall>t\<in>set (fetch_times ?s'). t < dl"
        using calls by simp
      moreover have "\<forall>n<length (fetch_times ?s'). non_terminal w instanceID n"
        using less.prems(2) True by (simp add: less_Suc_eq)
      ultimately have "\<exists>r. pollLoop w ?ctx name instanceID interval ?s' = Some r
           \<and> (\<forall>t\<in>set (fetch_calls r). t < dl)
           \<and> (exit_at r = ExitCtxDone) =
               (\<forall>n<length (fetch_calls r). non_terminal w instanceID n)
           \<and> (exit_at r = ExitCtxDone \<longrightarrow> ret r = Some e \<and> dl \<le> returned_at r)"
        by (rule less.IH)
      moreover have "pollLoop w ?ctx name instanceID interval s =
                     pollLoop w ?ctx name instanceID interval ?s'"
        using step by (subst pollLoop.simps) simp
      ultimately show ?thesis by simp
    next
      case False
      from False g have "\<exists>r. poll_iter w ?ctx name instanceID interval s = Inl r
                          \<and> fetch_calls r = fetch_times s @ [?t] \<and> exit_at r \<noteq> ExitCtxDone"
        using nd
        by (cases res)
           (auto simp: poll_iter_def Let_def non_terminal_def fetched_status_def)
      then obtain r where r: "poll_iter w ?ctx name instanceID interval s = Inl r"
        "fetch_calls r = fetch_times s @ [?t]" "exit_at r \<noteq> ExitCtxDone"
        by blast
      then have "pollLoop w ?ctx name instanceID interval s = Some r"
        by (subst pollLoop.simps) simp
      moreover have "\<not> (\<forall>n<length (fetch_calls r). non_terminal w instanceID n)"
        using False r(2) by auto
      ultimately show ?thesis
        using r(2,3) calls by simp
    qed
  qed
qed

text \<open>The definitions that evaluate a run of the loop on a concrete world.\<close>

lemmas poll_eval =
  pollInstanceStatus_def poll_start_def poll_iter_def takes_done_def done_ready_def
  wake_at_def status_of_def next_tick_def debug_line_def WithTimeout_def Let_def

lemma poll_iter_Inl_value:
  assumes "poll_iter w ctx name instanceID interval s = Inl r"
  shows "(case exit_at r of
            ExitActive \<Rightarrow> ret r = None
          | ExitErrorState \<Rightarrow>
              ret r = Some (ErrorString (''instance '' @ instanceID @ '' is in error state''))
          | ExitCtxDone \<Rightarrow> \<exists>t e. ctx = Some (t, e) \<and> t \<le> returned_at r \<and> ret r = Some e
          | ExitFetchError \<Rightarrow>
              \<exists>k d err. GetInstance w instanceID k = (d, Inl err) \<and> ret r = Some err)"
proof (cases "takes_done w ctx s")
  case True
  then obtain t e where "ctx = Some (t, e)" "t \<le> wake_at ctx s"
    by (auto simp: takes_done_def done_ready_def split: option.splits)
  with True assms show ?thesis
    by (auto simp: poll_iter_def Let_def)
next
  case False
  obtain d res where g: "GetInstance w instanceID (length (fetch_times s)) = (d, res)"
    by (cases "GetInstance w instanceID (length (fetch_times s))")
  show ?thesis
  proof (cases res)
    case (Inl err)
    with False g assms have "exit_at r = ExitFetchError" "ret r = Some err"
      by (auto simp: poll_iter_def Let_def)
    with g Inl show ?thesis by auto
  next
    case (Inr i)
    with False g assms show ?thesis
      by (auto simp: poll_iter_def Let_def split: if_splits)
  qed
qed

lemma poll_iters_Inl_iter:
  "poll_iters w ctx name instanceID interval n s = Inl r \<Longrightarrow>
   \<exists>s'. poll_iter w ctx name instanceID interval s' = Inl r"
proof (induction n arbitrary: s)
  case 0
  then show ?case by simp
next
  case (Suc n)
  then show ?case
    by (cases "poll_iter w ctx name instanceID interval s") auto
qed

lemma pollLoop_Some_iters:
  assumes "pollLoop w ctx name instanceID interval s = Some r"
  shows "\<exists>n. poll_iters w ctx name instanceID interval n s = Inl r"
proof (rule pollLoop.raw_induct
    [where P = "\<lambda>w ctx name instanceID interval s r.
                  \<exists>n. poll_iters w ctx name instanceID interval n s = Inl r", OF _ assms])
  fix f w ctx name instanceID interval s r
  assume IH: "\<And>w ctx name instanceID interval s r.
      f w ctx name instanceID interval s = Some r \<Longrightarrow>
      \<exists>n. poll_iters w ctx name instanceID interval n s = Inl r"
    and step: "(case poll_iter w ctx name instanceID interval s of
                  Inl r \<Rightarrow> Some r
                | Inr s' \<Rightarrow> f w ctx name instanceID interval s') = Some r"
  show "\<exists>n. poll_iters w ctx name instanceID interval n s = Inl r"
  proof (cases "poll_iter w ctx name instanceID interval s")
    case (Inl r')
    with step have "poll_iters w ctx name instanceID interval (Suc 0) s = Inl r" by simp
    then show ?thesis by blast
  next
    case (Inr s1)
    with step have "f w ctx name instanceID interval s1 = Some r" by simp
    then obtain n where "poll_iters w ctx name instanceID interval n s1 = Inl r"
      using IH by blast
    with Inr have "poll_iters w ctx name instanceID interval (Suc n) s = Inl r" by simp
    then show ?thesis by blast
  qed
qed


lemma decimal_500: "decimal 500 = ''500''"
  by code_simp

lemma Equal_iff: "Equal a b \<longleftrightarrow> a = b"
  by (cases a; cases b) simp_all


lemma update_sends_one_request:
  "calls (Update ([], plan) ([], state) updated fetched) \<noteq> []
   \<and> hd (calls (Update ([], plan) ([], state) updated fetched)) =
       CallUpdateInstance (ValueString (Id state)) (Update_requestBody plan state)"
  by (simp add: Update_def Let_def split: option.splits sum.splits)

lemma pending_until_default_deadline:
  fixes name instanceID :: string
  defines "w \<equiv> \<lparr>GetInstance = (\<lambda>a j. (0, Inr [''status'' \<mapsto> JString ''pending'']))
                     :: string \<Rightarrow> nat \<Rightarrow> nat \<times> (go_error + info),
                  select_done = (\<lambda>j::nat. True)\<rparr>"
  shows "\<exists>r. pollInstanceStatus w (Some (60 * Minute, DeadlineExceeded)) name instanceID
                (15 * Second) 0 = Some (Inr r)
           \<and> ret r = Some DeadlineExceeded \<and> exit_at r = ExitCtxDone
           \<and> returned_at r = 3600 * Second \<and> length (fetch_calls r) = 239"
proof -
  let ?ctx = "Some (60 * Minute, DeadlineExceeded)"
  let ?iv = "15 * Second"
  let ?s = "head_state w name instanceID ?iv 0 239"
  have iv: "0 < ?iv"
    by (simp add: Second_def)
  have inst: "\<forall>j. fst (GetInstance w instanceID j) = 0"
    by (simp add: w_def)
  have T: "tick_time w instanceID ?iv 0 k = (int k + 1) * ?iv" for k
    using tick_time_instant [OF iv inst, of 0 k] by simp
  have nt: "\<forall>j<239. non_terminal w instanceID j"
    by (simp add: w_def non_terminal_def fetched_status_def status_of_def)
  have nd: "\<forall>j<239. \<not> done_ready ?ctx (tick_time w instanceID ?iv 0 j)"
  proof (intro allI impI)
    fix j :: nat
    assume "j < 239"
    then have "(int j + 1) * ?iv < 60 * Minute"
      by (simp add: Minute_def Second_def)
    then show "\<not> done_ready ?ctx (tick_time w instanceID ?iv 0 j)"
      by (simp only: T done_ready_def option.case prod.case not_le)
  qed
  have reach: "poll_iters w ?ctx name instanceID ?iv 239 (poll_start ?iv 0) = Inr ?s"
    using nt nd by (rule pending_run)
  have head: "now ?s = 239 * ?iv" "tick_at ?s = 240 * ?iv"
    by (simp_all add: head_state_def loop_head_instant [OF iv inst])
  have wake: "wake_at ?ctx ?s = 3600 * Second"
    by (simp only: wake_at_def head option.case prod.case) (simp add: Minute_def Second_def)
  have "done_ready ?ctx (3600 * Second)"
    by (simp add: done_ready_def Minute_def)
  moreover have "select_done w (length (fetch_times ?s))"
    by (simp add: w_def)
  ultimately have td: "takes_done w ?ctx ?s"
    by (simp only: takes_done_def wake simp_thms)
  have "poll_iter w ?ctx name instanceID ?iv ?s =
        Inl \<lparr>ret = Some DeadlineExceeded, exit_at = ExitCtxDone, returned_at = 3600 * Second,
             fetch_calls = fetch_times ?s, logged = debug_log ?s\<rparr>"
    using td wake by (simp add: poll_iter_def Let_def)
  with iv reach have "pollInstanceStatus w ?ctx name instanceID ?iv 0 =
        Some (Inr \<lparr>ret = Some DeadlineExceeded, exit_at = ExitCtxDone,
                   returned_at = 3600 * Second,
                   fetch_calls = fetch_times ?s, logged = debug_log ?s\<rparr>)"
    by (rule pollInstanceStatus_reached)
  moreover have "length (fetch_times ?s) = 239"
    by (simp add: head_state_def)
  ultimately show ?thesis by simp
qed


lemma Create_never_deletes:
  assumes "Create fw w ctx t plan_get created = Some (Inr res)"
  shows "CallDeleteInstance instanceID \<notin> set (calls res)"
  using assms
  by (auto simp: Create_def Let_def Create_poll_args_def
      split: prod.splits option.splits sum.splits list.splits json.splits tf_list.splits
        if_splits)

lemma poll_iter_Inl_calls:
  assumes "poll_iter w ctx name instanceID interval s = Inl r"
  shows "length (fetch_times s) \<le> length (fetch_calls r)
         \<and> (length (fetch_calls r) = length (fetch_times s) \<longrightarrow> exit_at r = ExitCtxDone)"
  using assms
  by (auto simp: poll_iter_def Let_def split: if_splits prod.splits sum.splits)

lemma poll_iters_Inl_calls:
  "poll_iters w ctx name instanceID interval n s = Inl r \<Longrightarrow>
   length (fetch_times s) \<le> length (fetch_calls r)
   \<and> (length (fetch_calls r) = length (fetch_times s) \<longrightarrow> exit_at r = ExitCtxDone)"
proof (induction n arbitrary: s)
  case 0
  then show ?case by simp
next
  case (Suc n)
  show ?case
  proof (cases "poll_iter w ctx name instanceID interval s")
    case (Inl r')
    with Suc.prems have "poll_iter w ctx name instanceID interval s = Inl r" by simp
    then show ?thesis by (rule poll_iter_Inl_calls)
  next
    case (Inr s1)
    with Suc.prems have "poll_iters w ctx name instanceID interval n s1 = Inl r" by simp
    then have "length (fetch_times s1) \<le> length (fetch_calls r)" using Suc.IH by blast
    moreover have "length (fetch_times s1) = Suc (length (fetch_times s))"
      using Inr by (rule poll_iter_Inr_length)
    ultimately show ?thesis by simp
  qed
qed

lemma pollLoop_Some_calls:
  assumes "pollLoop w ctx name instanceID interval s = Some r"
  shows "length (fetch_times s) \<le> length (fetch_calls r)
         \<and> (length (fetch_calls r) = length (fetch_times s) \<longrightarrow> exit_at r = ExitCtxDone)"
proof -
  from assms obtain n where "poll_iters w ctx name instanceID interval n s = Inl r"
    using pollLoop_Some_iters by blast
  then show ?thesis by (rule poll_iters_Inl_calls)
qed

lemma same_status_iter:
  assumes "\<forall>k. select_done w' k = select_done w k"
    and "\<forall>k. fst (GetInstance w' instanceID k) = fst (GetInstance w instanceID k)"
    and "\<forall>k. map_sum (\<lambda>e. e) status_of (snd (GetInstance w' instanceID k)) =
             map_sum (\<lambda>e. e) status_of (snd (GetInstance w instanceID k))"
  shows "poll_iter w' ctx name instanceID interval s = poll_iter w ctx name instanceID interval s"
proof -
  let ?k = "length (fetch_times s)"
  have td: "takes_done w' ctx s = takes_done w ctx s"
    using assms(1) by (simp add: takes_done_def)
  obtain d res where g: "GetInstance w instanceID ?k = (d, res)"
    by (cases "GetInstance w instanceID ?k")
  obtain d' res' where g': "GetInstance w' instanceID ?k = (d', res')"
    by (cases "GetInstance w' instanceID ?k")
  have d: "d' = d"
    using assms(2) g g' by (metis fst_conv)
  have res: "map_sum (\<lambda>e. e) status_of res' = map_sum (\<lambda>e. e) status_of res"
    using assms(3) g g' by (metis snd_conv)
  show ?thesis
    using td g g' d res
    by (cases res; cases res') (simp_all add: poll_iter_def Let_def)
qed

lemma same_status_iters:
  assumes "\<And>s. poll_iter w' ctx name instanceID interval s =
                poll_iter w ctx name instanceID interval s"
  shows "poll_iters w' ctx name instanceID interval n s =
         poll_iters w ctx name instanceID interval n s"
  by (induction n arbitrary: s) (simp_all add: assms split: sum.splits)

lemma same_status_loop:
  assumes "\<And>s. poll_iter w' ctx name instanceID interval s =
                poll_iter w ctx name instanceID interval s"
  shows "pollLoop w' ctx name instanceID interval s = pollLoop w ctx name instanceID interval s"
proof (cases "pollLoop w ctx name instanceID interval s")
  case (Some r)
  then obtain n where "poll_iters w ctx name instanceID interval n s = Inl r"
    using pollLoop_Some_iters by blast
  then have "poll_iters w' ctx name instanceID interval n s = Inl r"
    by (simp add: same_status_iters [OF assms])
  then have "pollLoop w' ctx name instanceID interval s = Some r"
    by (rule poll_iters_Inl)
  with Some show ?thesis by simp
next
  case None
  show ?thesis
  proof (cases "pollLoop w' ctx name instanceID interval s")
    case None': None
    with None show ?thesis by simp
  next
    case (Some r)
    then obtain n where "poll_iters w' ctx name instanceID interval n s = Inl r"
      using pollLoop_Some_iters by blast
    then have "poll_iters w ctx name instanceID interval n s = Inl r"
      by (simp add: same_status_iters [OF assms])
    then have "pollLoop w ctx name instanceID interval s = Some r"
      by (rule poll_iters_Inl)
    with None show ?thesis by simp
  qed
qed

lemma Create_polls:
  assumes vols: "\<forall>vs. VolumeIds plan = ListValue vs \<longrightarrow> fst (ElementsAs fw vs) = []"
    and id: "result ''id'' = Some (JString instanceID)"
    and timeout:
      "(Timeouts plan = None \<or> Timeouts plan = Some StringNull
          \<or> Timeouts plan = Some StringUnknown) \<and> d = 3600 * Second
       \<or> (\<exists>s. Timeouts plan = Some (StringValue s) \<and> ParseDuration fw s = Inr d)"
    and poll: "pollInstanceStatus w (WithTimeout ctx t d) (ValueString (Name plan)) instanceID
                 (15 * Second) t = Some (Inr r)"
  shows "\<exists>res body. Create fw w ctx t ([], plan) (Inr result) = Some (Inr res)
           \<and> calls res =
               CallCreateInstance body # map (\<lambda>_. CallGetInstance instanceID) (fetch_calls r) @
               (if ret r = None then [CallGetInstance instanceID] else [])
           \<and> (case ret r of
                 Some err \<Rightarrow>
                   diagnostics res =
                     [(''Instance not ready'',
                       ''timed out waiting for '' @ instanceID @ '' to become active: '' @
                       Error err)]
               | None \<Rightarrow> True)"
proof -
  have tc: "Timeouts_Create fw (Timeouts plan) defaultCreateTimeout = (d, [])"
    using timeout
    by (auto simp: Timeouts_Create_def defaultCreateTimeout_def Minute_def)
  have vs: "(case VolumeIds plan of ListValue vs \<Rightarrow> Some (ElementsAs fw vs) | _ \<Rightarrow> None) = None
            \<or> (\<exists>vi. (case VolumeIds plan of ListValue vs \<Rightarrow> Some (ElementsAs fw vs) | _ \<Rightarrow> None)
                      = Some ([], vi))"
    using vols by (cases "VolumeIds plan") (auto simp: prod_eq_iff)
  show ?thesis
    using vs
  proof
    assume v: "(case VolumeIds plan of ListValue vs \<Rightarrow> Some (ElementsAs fw vs) | _ \<Rightarrow> None) = None"
    show ?thesis
      using v id tc poll
      by (cases "ret r"; cases "snd (GetInstance w instanceID (length (fetch_calls r)))")
         (simp_all add: Create_def Let_def Create_poll_args_def)
  next
    assume "\<exists>vi. (case VolumeIds plan of ListValue vs \<Rightarrow> Some (ElementsAs fw vs) | _ \<Rightarrow> None)
                      = Some ([], vi)"
    then obtain vi where
      v: "(case VolumeIds plan of ListValue vs \<Rightarrow> Some (ElementsAs fw vs) | _ \<Rightarrow> None)
            = Some ([], vi)"
      by blast
    show ?thesis
      using v id tc poll
      by (cases "ret r"; cases "snd (GetInstance w instanceID (length (fetch_calls r)))")
         (simp_all add: Create_def Let_def Create_poll_args_def)
  qed
qed

section \<open>Fetch errors\<close>

text \<open>
  C4. When the loop has gone through \<open>n\<close> iterations without returning, the \<^verbatim>\<open>select\<close>
  of the next one takes the tick and the fetch of that tick (call number \<open>n\<close>, counted
  from 0) returns an error, \<^verbatim>\<open>pollInstanceStatus\<close> returns that very error from that
  iteration, when the failed call ends: the session has made \<open>n + 1\<close> calls of
  \<^verbatim>\<open>GetInstance\<close>, the failed one being the last, and none follows it.
\<close>

theorem fetch_error_ends_session:
  assumes "0 < interval"
    and "poll_iters w ctx name instanceID interval n (poll_start interval t0) = Inr s"
    and "\<not> takes_done w ctx s"
    and "GetInstance w instanceID n = (d, Inl err)"
  shows "pollInstanceStatus w ctx name instanceID interval t0 =
           Some (Inr \<lparr>ret = Some err, exit_at = ExitFetchError,
                      returned_at = wake_at ctx s + int d,
                      fetch_calls = fetch_times s @ [wake_at ctx s],
                      logged = debug_log s\<rparr>)
         \<and> length (fetch_times s @ [wake_at ctx s]) = Suc n"
proof -
  have len: "length (fetch_times s) = n"
    using poll_iters_Inr_length [OF assms(2)] by (simp add: poll_start_def)
  have "poll_iter w ctx name instanceID interval s =
          Inl \<lparr>ret = Some err, exit_at = ExitFetchError,
               returned_at = wake_at ctx s + int d,
               fetch_calls = fetch_times s @ [wake_at ctx s],
               logged = debug_log s\<rparr>"
    using assms(3,4) len by (simp add: poll_iter_def Let_def)
  with assms(1,2) have "pollInstanceStatus w ctx name instanceID interval t0 =
           Some (Inr \<lparr>ret = Some err, exit_at = ExitFetchError,
                      returned_at = wake_at ctx s + int d,
                      fetch_calls = fetch_times s @ [wake_at ctx s],
                      logged = debug_log s\<rparr>)"
    by (rule pollInstanceStatus_reached)
  with len show ?thesis by simp
qed

text \<open>
  The theorem at work: a first fetch that reports \<open>pending\<close>, a second one that fails.
\<close>

theorem fetch_error_ends_session_witness:
  "(0::int) < 1
   \<and> poll_iters
         \<lparr>GetInstance = (\<lambda>a k. if k = 0 then (0, Inr [''status'' \<mapsto> JString ''pending''])
                                 else (0, Inl (ErrorString ''boom''))),
          select_done = (\<lambda>k. False)\<rparr>
         None ''gpu'' ''i-1'' 1 (Suc 0) (poll_start 1 0)
       = Inr \<lparr>now = 1, tick_at = 2, fetch_times = [1],
              debug_log = [debug_line ''gpu'' ''i-1'' ''pending'']\<rparr>
   \<and> pollInstanceStatus
         \<lparr>GetInstance = (\<lambda>a k. if k = 0 then (0, Inr [''status'' \<mapsto> JString ''pending''])
                                 else (0, Inl (ErrorString ''boom''))),
          select_done = (\<lambda>k. False)\<rparr>
         None ''gpu'' ''i-1'' 1 0
       = Some (Inr \<lparr>ret = Some (ErrorString ''boom''), exit_at = ExitFetchError,
                    returned_at = 2, fetch_calls = [1, 2],
                    logged = [debug_line ''gpu'' ''i-1'' ''pending'']\<rparr>)"
proof -
  let ?w = "\<lparr>GetInstance = (\<lambda>a k. if k = 0 then (0, Inr [''status'' \<mapsto> JString ''pending''])
                                 else (0::nat, Inl (ErrorString ''boom''))),
            select_done = (\<lambda>k::nat. False)\<rparr>"
  let ?s = "\<lparr>now = 1, tick_at = 2, fetch_times = [1],
             debug_log = [debug_line ''gpu'' ''i-1'' ''pending'']\<rparr>"
  have h1: "(0::int) < 1" by simp
  have h2: "poll_iters ?w None ''gpu'' ''i-1'' 1 (Suc 0) (poll_start 1 0) = Inr ?s"
    by (simp add: poll_iter_def poll_start_def takes_done_def done_ready_def wake_at_def
        status_of_def next_tick_def Let_def)
  have h3: "\<not> takes_done ?w None ?s"
    by (simp add: takes_done_def done_ready_def)
  have h4: "GetInstance ?w ''i-1'' (Suc 0) = (0, Inl (ErrorString ''boom''))"
    by simp
  show ?thesis
    using fetch_error_ends_session [OF h1 h2 h3 h4] h2
    by (simp add: wake_at_def)
qed

section \<open>Cancellation between two ticks\<close>

text \<open>
  C8. Let the loop run under a context with a timeout whose parent is cancelled at an
  instant \<open>tc\<close>, no later than the deadline, at which the loop is suspended in its
  \<^verbatim>\<open>select\<close>: it entered the \<^verbatim>\<open>select\<close> no later than \<open>tc\<close> and the next tick is due after
  \<open>tc\<close>. Then \<^verbatim>\<open>pollInstanceStatus\<close> returns \<^verbatim>\<open>context.Canceled\<close> at \<open>tc\<close> itself, which is
  within one interval of the signal, without another fetch: the wait between two ticks
  ends with the cancellation, not with the next tick and not with the deadline.
\<close>

theorem cancel_between_ticks:
  assumes "0 < interval"
    and "tc \<le> t1 + timeout"
    and "poll_iters w (WithTimeout (Some (tc, Canceled)) t1 timeout) name instanceID interval n
           (poll_start interval t0) = Inr s"
    and "now s \<le> tc"
    and "tc < tick_at s"
  shows "\<exists>r. pollInstanceStatus w (WithTimeout (Some (tc, Canceled)) t1 timeout)
                name instanceID interval t0 = Some (Inr r)
           \<and> ret r = Some Canceled \<and> exit_at r = ExitCtxDone
           \<and> returned_at r = tc \<and> returned_at r \<le> tc + interval
           \<and> fetch_calls r = fetch_times s \<and> length (fetch_calls r) = n"
proof -
  let ?ctx = "WithTimeout (Some (tc, Canceled)) t1 timeout"
  let ?r = "\<lparr>ret = Some Canceled, exit_at = ExitCtxDone, returned_at = tc,
             fetch_calls = fetch_times s, logged = debug_log s\<rparr>"
  have ctx: "?ctx = Some (tc, Canceled)"
    using assms(2) by (simp add: WithTimeout_def)
  have wake: "wake_at ?ctx s = tc"
    using assms(4,5) by (simp add: ctx wake_at_def)
  have "takes_done w ?ctx s"
    using assms(5) by (simp add: takes_done_def wake) (simp add: ctx done_ready_def)
  then have "poll_iter w ?ctx name instanceID interval s = Inl ?r"
    using wake by (simp add: poll_iter_def Let_def) (simp add: ctx)
  with assms(1,3) have "pollInstanceStatus w ?ctx name instanceID interval t0 = Some (Inr ?r)"
    by (rule pollInstanceStatus_reached)
  moreover have "length (fetch_times s) = n"
    using poll_iters_Inr_length [OF assms(3)] by (simp add: poll_start_def)
  ultimately show ?thesis
    using assms(1) by (intro exI [of _ ?r]) simp
qed

text \<open>
  The theorem at work: an interval of 10 under a timeout of 100, a fetch at 10, the
  cancellation at 13; the next tick would have been due at 20.
\<close>

theorem cancel_between_ticks_witness:
  "(0::int) < 10 \<and> (13::int) \<le> 0 + 100
   \<and> poll_iters \<lparr>GetInstance = (\<lambda>a k. (0, Inr [''status'' \<mapsto> JString ''pending''])),
                  select_done = (\<lambda>k. False)\<rparr>
         (WithTimeout (Some (13, Canceled)) 0 100) ''gpu'' ''i-1'' 10 (Suc 0) (poll_start 10 0)
       = Inr \<lparr>now = 10, tick_at = 20, fetch_times = [10],
              debug_log = [debug_line ''gpu'' ''i-1'' ''pending'']\<rparr>
   \<and> (\<exists>r. pollInstanceStatus
              \<lparr>GetInstance = (\<lambda>a k. (0, Inr [''status'' \<mapsto> JString ''pending''])),
               select_done = (\<lambda>k. False)\<rparr>
              (WithTimeout (Some (13, Canceled)) 0 100) ''gpu'' ''i-1'' 10 0 = Some (Inr r)
          \<and> ret r = Some Canceled \<and> exit_at r = ExitCtxDone \<and> returned_at r = 13
          \<and> fetch_calls r = [10])"
proof -
  let ?w = "\<lparr>GetInstance = (\<lambda>a k. (0::nat, Inr [''status'' \<mapsto> JString ''pending'']))
                 :: string \<Rightarrow> nat \<Rightarrow> nat \<times> (go_error + info),
            select_done = (\<lambda>k::nat. False)\<rparr>"
  let ?s = "\<lparr>now = 10, tick_at = 20, fetch_times = [10],
             debug_log = [debug_line ''gpu'' ''i-1'' ''pending'']\<rparr>"
  have h1: "(0::int) < 10" by simp
  have h2: "(13::int) \<le> 0 + 100" by simp
  have h3: "poll_iters ?w (WithTimeout (Some (13, Canceled)) 0 100) ''gpu'' ''i-1'' 10 (Suc 0)
              (poll_start 10 0) = Inr ?s"
    by (simp add: poll_iter_def poll_start_def takes_done_def done_ready_def wake_at_def
        status_of_def next_tick_def WithTimeout_def Let_def)
  have h4: "now ?s \<le> 13" by simp
  have h5: "13 < tick_at ?s" by simp
  have "\<exists>r. pollInstanceStatus ?w (WithTimeout (Some (13, Canceled)) 0 100)
               ''gpu'' ''i-1'' 10 0 = Some (Inr r)
          \<and> ret r = Some Canceled \<and> exit_at r = ExitCtxDone \<and> returned_at r = 13
          \<and> fetch_calls r = [10]"
    using cancel_between_ticks [OF h1 h2 h3 h4 h5] by simp blast
  with h1 h2 h3 show ?thesis
    by blast
qed

section \<open>A status that is absent or not a string\<close>

text \<open>
  C9. Let the loop have gone through \<open>n\<close> iterations, let the \<^verbatim>\<open>select\<close> of the next one take
  the tick, and let the snapshot that this tick fetches have no \<open>status\<close> field, or one
  that is not a string. Then the loop does not return from that iteration: it stands at
  the head of iteration \<open>n + 1\<close>, waiting for the next tick, with an empty status logged,
  and \<^verbatim>\<open>pollInstanceStatus\<close> returns what the loop returns from there. A session that
  returns has therefore made at least \<open>n + 1\<close> fetches, and exactly \<open>n + 1\<close> only when the
  context ended it. The whole session is the one that the same snapshot with its status
  set to the empty string gives.
\<close>

theorem status_not_string_continues:
  assumes "0 < interval"
    and "poll_iters w ctx name instanceID interval n (poll_start interval t0) = Inr s"
    and "\<not> takes_done w ctx s"
    and "GetInstance w instanceID n = (d, Inr i)"
    and "\<forall>v. i ''status'' \<noteq> Some (JString v)"
  shows "poll_iters w ctx name instanceID interval (Suc n) (poll_start interval t0) =
           Inr \<lparr>now = wake_at ctx s + int d,
                tick_at = next_tick interval (tick_at s) (wake_at ctx s),
                fetch_times = fetch_times s @ [wake_at ctx s],
                debug_log = debug_log s @ [debug_line name instanceID []]\<rparr>
         \<and> pollInstanceStatus w ctx name instanceID interval t0 =
             map_option Inr
               (pollLoop w ctx name instanceID interval
                  \<lparr>now = wake_at ctx s + int d,
                   tick_at = next_tick interval (tick_at s) (wake_at ctx s),
                   fetch_times = fetch_times s @ [wake_at ctx s],
                   debug_log = debug_log s @ [debug_line name instanceID []]\<rparr>)
         \<and> (\<forall>r. pollInstanceStatus w ctx name instanceID interval t0 = Some (Inr r) \<longrightarrow>
                Suc n \<le> length (fetch_calls r)
                \<and> (length (fetch_calls r) = Suc n \<longrightarrow> exit_at r = ExitCtxDone))
         \<and> pollInstanceStatus w ctx name instanceID interval t0 =
             pollInstanceStatus
               (w\<lparr>GetInstance := (GetInstance w)
                    (instanceID := (GetInstance w instanceID)
                       (n := (d, Inr (i(''status'' \<mapsto> JString [])))))\<rparr>)
               ctx name instanceID interval t0"
proof -
  let ?s' = "\<lparr>now = wake_at ctx s + int d,
              tick_at = next_tick interval (tick_at s) (wake_at ctx s),
              fetch_times = fetch_times s @ [wake_at ctx s],
              debug_log = debug_log s @ [debug_line name instanceID []]\<rparr>"
  let ?w' = "w\<lparr>GetInstance := (GetInstance w)
                    (instanceID := (GetInstance w instanceID)
                       (n := (d, Inr (i(''status'' \<mapsto> JString [])))))\<rparr>"
  have len: "length (fetch_times s) = n"
    using poll_iters_Inr_length [OF assms(2)] by (simp add: poll_start_def)
  have st: "status_of i = []"
    using assms(5) by (auto simp: status_of_def split: option.splits json.splits)
  have step: "poll_iter w ctx name instanceID interval s = Inr ?s'"
    using assms(3,4) len st by (simp add: poll_iter_def Let_def)
  have reach: "poll_iters w ctx name instanceID interval (Suc n) (poll_start interval t0) = Inr ?s'"
    using assms(2) step by (simp only: poll_iters_Suc_end sum.case)
  have loop: "pollLoop w ctx name instanceID interval (poll_start interval t0) =
              pollLoop w ctx name instanceID interval ?s'"
    using reach by (rule poll_iters_Inr)
  have run: "pollInstanceStatus w ctx name instanceID interval t0 =
             map_option Inr (pollLoop w ctx name instanceID interval ?s')"
    using assms(1) loop by (simp add: pollInstanceStatus_def)
  have later: "\<forall>r. pollInstanceStatus w ctx name instanceID interval t0 = Some (Inr r) \<longrightarrow>
                Suc n \<le> length (fetch_calls r)
                \<and> (length (fetch_calls r) = Suc n \<longrightarrow> exit_at r = ExitCtxDone)"
  proof (intro allI impI)
    fix r
    assume "pollInstanceStatus w ctx name instanceID interval t0 = Some (Inr r)"
    with run have "map_option Inr (pollLoop w ctx name instanceID interval ?s') =
                   Some (Inr r :: panic + poll_result)"
      by simp
    then have "pollLoop w ctx name instanceID interval ?s' = Some r"
      by (cases "pollLoop w ctx name instanceID interval ?s'") simp_all
    from pollLoop_Some_calls [OF this] len
    show "Suc n \<le> length (fetch_calls r)
          \<and> (length (fetch_calls r) = Suc n \<longrightarrow> exit_at r = ExitCtxDone)"
      by simp
  qed
  have "map_sum (\<lambda>e. e) status_of (snd (GetInstance ?w' instanceID k)) =
        map_sum (\<lambda>e. e) status_of (snd (GetInstance w instanceID k))" for k
    using assms(4) st by (simp add: status_of_def)
  moreover have "fst (GetInstance ?w' instanceID k) = fst (GetInstance w instanceID k)" for k
    using assms(4) by simp
  moreover have "select_done ?w' k = select_done w k" for k
    by simp
  ultimately have "poll_iter ?w' ctx name instanceID interval s0 =
        poll_iter w ctx name instanceID interval s0" for s0
    by (intro same_status_iter) blast+
  then have "pollLoop ?w' ctx name instanceID interval (poll_start interval t0) =
             pollLoop w ctx name instanceID interval (poll_start interval t0)"
    by (rule same_status_loop)
  then have same: "pollInstanceStatus w ctx name instanceID interval t0 =
                   pollInstanceStatus ?w' ctx name instanceID interval t0"
    by (simp add: pollInstanceStatus_def)
  show ?thesis
    using reach run later same by blast
qed

text \<open>
  The theorem at work: a first snapshot whose status is a number, a second one that is
  \<open>active\<close>; the session goes on to the second tick and ends there.
\<close>

theorem status_not_string_continues_witness:
  "(0::int) < 15
   \<and> \<not> takes_done
         \<lparr>GetInstance = (\<lambda>a k. if k = 0
                                 then (0, Inr [''name'' \<mapsto> JString ''gpu'', ''status'' \<mapsto> JNumber 3])
                                 else (0, Inr [''status'' \<mapsto> JString ''active''])),
          select_done = (\<lambda>k. False)\<rparr> None (poll_start 15 0)
   \<and> pollInstanceStatus
         \<lparr>GetInstance = (\<lambda>a k. if k = 0
                                 then (0, Inr [''name'' \<mapsto> JString ''gpu'', ''status'' \<mapsto> JNumber 3])
                                 else (0, Inr [''status'' \<mapsto> JString ''active''])),
          select_done = (\<lambda>k. False)\<rparr> None ''gpu'' ''i-1'' 15 0
       = Some (Inr \<lparr>ret = None, exit_at = ExitActive, returned_at = 30,
                    fetch_calls = [15, 30],
                    logged = [''instance [name: gpu, id: i-1] status='',
                              ''instance [name: gpu, id: i-1] status=active'']\<rparr>)"
proof -
  let ?i = "[''name'' \<mapsto> JString ''gpu'', ''status'' \<mapsto> JNumber 3]"
  let ?w = "\<lparr>GetInstance = (\<lambda>a k. if k = 0 then (0::nat, Inr ?i)
                                 else (0, Inr [''status'' \<mapsto> JString ''active'']))
                 :: string \<Rightarrow> nat \<Rightarrow> nat \<times> (go_error + info),
            select_done = (\<lambda>k::nat. False)\<rparr>"
  have h1: "(0::int) < 15" by simp
  have h2: "poll_iters ?w None ''gpu'' ''i-1'' 15 0 (poll_start 15 0) = Inr (poll_start 15 0)"
    by simp
  have h3: "\<not> takes_done ?w None (poll_start 15 0)"
    by (simp add: takes_done_def done_ready_def)
  have h4: "GetInstance ?w ''i-1'' 0 = (0, Inr ?i)"
    by simp
  have h5: "\<forall>v. ?i ''status'' \<noteq> Some (JString v)"
    by simp
  have "pollInstanceStatus ?w None ''gpu'' ''i-1'' 15 0 =
        map_option Inr
          (pollLoop ?w None ''gpu'' ''i-1'' 15
             \<lparr>now = wake_at None (poll_start 15 0) + int 0,
              tick_at = next_tick 15 (tick_at (poll_start 15 0)) (wake_at None (poll_start 15 0)),
              fetch_times = fetch_times (poll_start 15 0) @ [wake_at None (poll_start 15 0)],
              debug_log = debug_log (poll_start 15 0) @ [debug_line ''gpu'' ''i-1'' []]\<rparr>)"
    using status_not_string_continues [OF h1 h2 h3 h4 h5] by blast
  then have "pollInstanceStatus ?w None ''gpu'' ''i-1'' 15 0
       = Some (Inr \<lparr>ret = None, exit_at = ExitActive, returned_at = 30,
                    fetch_calls = [15, 30],
                    logged = [''instance [name: gpu, id: i-1] status='',
                              ''instance [name: gpu, id: i-1] status=active'']\<rparr>)"
    by (simp add: poll_start_def poll_iter_def takes_done_def done_ready_def
        wake_at_def status_of_def next_tick_def debug_line_def Let_def pollLoop.simps)
  with h1 h3 show ?thesis
    by blast
qed

section \<open>Statuses up to the first terminal one\<close>

text \<open>
  C5. When the first \<open>k\<close> fetches report statuses that are not terminal, fetch number
  \<open>k\<close> (counted from 0) reports \<open>active\<close>, and the context is not done by the instant of
  that fetch, \<^verbatim>\<open>pollInstanceStatus\<close> returns nil from the \<open>active\<close> branch. The session
  has made exactly \<open>k + 1\<close> calls of \<^verbatim>\<open>GetInstance\<close>, one per tick received; the first
  is made one full interval after the start, not at the start, and the last is the one
  that reported \<open>active\<close>, upon whose end the function returns.
\<close>

theorem active_after_pending:
  assumes "0 < interval"
    and "\<forall>j<k. non_terminal w instanceID j"
    and "fetched_status w instanceID k = Some ''active''"
    and "\<not> done_ready ctx (tick_time w instanceID interval t0 k)"
  shows "\<exists>r. pollInstanceStatus w ctx name instanceID interval t0 = Some (Inr r)
           \<and> ret r = None \<and> exit_at r = ExitActive
           \<and> fetch_calls r = map (tick_time w instanceID interval t0) [0..<Suc k]
           \<and> length (fetch_calls r) = Suc k
           \<and> hd (fetch_calls r) = t0 + interval
           \<and> last (fetch_calls r) = tick_time w instanceID interval t0 k
           \<and> returned_at r =
               tick_time w instanceID interval t0 k + int (fst (GetInstance w instanceID k))"
proof -
  let ?s = "head_state w name instanceID interval t0 k"
  let ?T = "tick_time w instanceID interval t0"
  obtain d res where g: "GetInstance w instanceID k = (d, res)"
    by (cases "GetInstance w instanceID k")
  from assms(3) g obtain i where res: "res = Inr i" and st: "status_of i = ''active''"
    by (cases res) (auto simp: fetched_status_def)
  let ?r = "\<lparr>ret = None, exit_at = ExitActive, returned_at = ?T k + int d,
             fetch_calls = fetch_times ?s @ [?T k],
             logged = debug_log ?s @ [debug_line name instanceID ''active'']\<rparr>"
  have len: "length (fetch_times ?s) = k"
    by (simp add: head_state_def)
  have "poll_iter w ctx name instanceID interval ?s = Inl ?r"
    using head_state_not_done [OF assms(4), of name] head_state_wake [OF assms(4), of name]
      g res st len
    by (simp add: poll_iter_def Let_def)
  with assms(1,2,4) have run: "pollInstanceStatus w ctx name instanceID interval t0 = Some (Inr ?r)"
    by (rule terminal_run)
  have calls: "fetch_times ?s @ [?T k] = map ?T [0..<Suc k]"
    by (simp add: head_state_def)
  have "hd (map ?T [0..<Suc k]) = ?T 0"
    by (simp add: upt_rec hd_map)
  then have first: "hd (fetch_times ?s @ [?T k]) = t0 + interval"
    using calls tick_time_0 [OF assms(1)] by simp
  show ?thesis
    using run calls first g by (intro exI [of _ ?r]) simp
qed

text \<open>
  The theorem at work: interval 1, deadline 5, statuses \<open>pending\<close>, \<open>pending\<close>, \<open>active\<close>;
  three fetches, at 1, 2 and 3.
\<close>

theorem active_after_pending_witness:
  "(0::int) < 1
   \<and> non_terminal
        \<lparr>GetInstance = (\<lambda>a j. (0, Inr [''status'' \<mapsto> JString (if j < 2 then ''pending'' else ''active'')])),
         select_done = (\<lambda>j. True)\<rparr> ''i-1'' 0
   \<and> non_terminal
        \<lparr>GetInstance = (\<lambda>a j. (0, Inr [''status'' \<mapsto> JString (if j < 2 then ''pending'' else ''active'')])),
         select_done = (\<lambda>j. True)\<rparr> ''i-1'' 1
   \<and> fetched_status
        \<lparr>GetInstance = (\<lambda>a j. (0, Inr [''status'' \<mapsto> JString (if j < 2 then ''pending'' else ''active'')])),
         select_done = (\<lambda>j. True)\<rparr> ''i-1'' 2 = Some ''active''
   \<and> \<not> done_ready (WithTimeout None 0 5)
         (tick_time
            \<lparr>GetInstance = (\<lambda>a j. (0, Inr [''status'' \<mapsto> JString (if j < 2 then ''pending'' else ''active'')])),
             select_done = (\<lambda>j. True)\<rparr> ''i-1'' 1 0 2)
   \<and> (\<exists>r. pollInstanceStatus
              \<lparr>GetInstance = (\<lambda>a j. (0, Inr [''status'' \<mapsto> JString (if j < 2 then ''pending'' else ''active'')])),
               select_done = (\<lambda>j. True)\<rparr>
              (WithTimeout None 0 5) ''gpu'' ''i-1'' 1 0 = Some (Inr r)
          \<and> ret r = None \<and> exit_at r = ExitActive \<and> fetch_calls r = [1, 2, 3]
          \<and> returned_at r = 3)"
proof -
  let ?w = "\<lparr>GetInstance = (\<lambda>a j. (0::nat, Inr [''status'' \<mapsto> JString (if j < 2 then ''pending'' else ''active'')]))
                 :: string \<Rightarrow> nat \<Rightarrow> nat \<times> (go_error + info),
            select_done = (\<lambda>j::nat. True)\<rparr>"
  have h1: "(0::int) < 1" by simp
  have n0: "non_terminal ?w ''i-1'' 0" and n1: "non_terminal ?w ''i-1'' 1"
    by (simp_all add: non_terminal_def fetched_status_def status_of_def)
  have h2: "\<forall>j<2. non_terminal ?w ''i-1'' j"
    by (simp add: non_terminal_def fetched_status_def status_of_def)
  have h3: "fetched_status ?w ''i-1'' 2 = Some ''active''"
    by (simp add: fetched_status_def status_of_def)
  have T: "tick_time ?w ''i-1'' 1 0 k = int k + 1" for k
    by (simp add: tick_time_instant)
  have h4: "\<not> done_ready (WithTimeout None 0 5) (tick_time ?w ''i-1'' 1 0 2)"
    by (simp add: T done_ready_def WithTimeout_def)
  have upt: "[0..<3] = [0, 1, 2::nat]"
    by code_simp
  show ?thesis
    using active_after_pending [OF h1 h2 h3 h4, of "''gpu''"] h1 n0 n1 h3 h4
    by (simp add: T upt) blast
qed

text \<open>
  C6. When the first \<open>k\<close> fetches report statuses that are not terminal, fetch number
  \<open>k\<close> reports \<open>error\<close>, and the context is not done by the instant of that fetch,
  \<^verbatim>\<open>pollInstanceStatus\<close> returns, from that iteration and after \<open>k + 1\<close> fetches, the
  error whose message is \<open>instance <id> is in error state\<close>: the failure carries the
  instance id.
\<close>

theorem error_after_pending:
  assumes "0 < interval"
    and "\<forall>j<k. non_terminal w instanceID j"
    and "fetched_status w instanceID k = Some ''error''"
    and "\<not> done_ready ctx (tick_time w instanceID interval t0 k)"
  shows "\<exists>r. pollInstanceStatus w ctx name instanceID interval t0 = Some (Inr r)
           \<and> ret r = Some (ErrorString (''instance '' @ instanceID @ '' is in error state''))
           \<and> exit_at r = ExitErrorState
           \<and> fetch_calls r = map (tick_time w instanceID interval t0) [0..<Suc k]
           \<and> length (fetch_calls r) = Suc k
           \<and> returned_at r =
               tick_time w instanceID interval t0 k + int (fst (GetInstance w instanceID k))"
proof -
  let ?s = "head_state w name instanceID interval t0 k"
  let ?T = "tick_time w instanceID interval t0"
  obtain d res where g: "GetInstance w instanceID k = (d, res)"
    by (cases "GetInstance w instanceID k")
  from assms(3) g obtain i where res: "res = Inr i" and st: "status_of i = ''error''"
    by (cases res) (auto simp: fetched_status_def)
  let ?r = "\<lparr>ret = Some (ErrorString (''instance '' @ instanceID @ '' is in error state'')),
             exit_at = ExitErrorState, returned_at = ?T k + int d,
             fetch_calls = fetch_times ?s @ [?T k],
             logged = debug_log ?s @ [debug_line name instanceID ''error'']\<rparr>"
  have len: "length (fetch_times ?s) = k"
    by (simp add: head_state_def)
  have "poll_iter w ctx name instanceID interval ?s = Inl ?r"
    using head_state_not_done [OF assms(4), of name] head_state_wake [OF assms(4), of name]
      g res st len
    by (simp add: poll_iter_def Let_def)
  with assms(1,2,4) have run: "pollInstanceStatus w ctx name instanceID interval t0 = Some (Inr ?r)"
    by (rule terminal_run)
  have calls: "fetch_times ?s @ [?T k] = map ?T [0..<Suc k]"
    by (simp add: head_state_def)
  show ?thesis
    using run calls g by (intro exI [of _ ?r]) simp
qed

text \<open>The theorem at work: statuses \<open>pending\<close>, \<open>error\<close>; two fetches.\<close>

theorem error_after_pending_witness:
  "(0::int) < 1
   \<and> non_terminal
        \<lparr>GetInstance = (\<lambda>a j. (0, Inr [''status'' \<mapsto> JString (if j = 0 then ''pending'' else ''error'')])),
         select_done = (\<lambda>j. True)\<rparr> ''i-1'' 0
   \<and> fetched_status
        \<lparr>GetInstance = (\<lambda>a j. (0, Inr [''status'' \<mapsto> JString (if j = 0 then ''pending'' else ''error'')])),
         select_done = (\<lambda>j. True)\<rparr> ''i-1'' 1 = Some ''error''
   \<and> \<not> done_ready None
         (tick_time
            \<lparr>GetInstance = (\<lambda>a j. (0, Inr [''status'' \<mapsto> JString (if j = 0 then ''pending'' else ''error'')])),
             select_done = (\<lambda>j. True)\<rparr> ''i-1'' 1 0 1)
   \<and> (\<exists>r. pollInstanceStatus
              \<lparr>GetInstance = (\<lambda>a j. (0, Inr [''status'' \<mapsto> JString (if j = 0 then ''pending'' else ''error'')])),
               select_done = (\<lambda>j. True)\<rparr>
              None ''gpu'' ''i-1'' 1 0 = Some (Inr r)
          \<and> ret r = Some (ErrorString ''instance i-1 is in error state'')
          \<and> exit_at r = ExitErrorState \<and> fetch_calls r = [1, 2])"
proof -
  let ?w = "\<lparr>GetInstance = (\<lambda>a j. (0::nat, Inr [''status'' \<mapsto> JString (if j = 0 then ''pending'' else ''error'')]))
                 :: string \<Rightarrow> nat \<Rightarrow> nat \<times> (go_error + info),
            select_done = (\<lambda>j::nat. True)\<rparr>"
  have h1: "(0::int) < 1" by simp
  have n0: "non_terminal ?w ''i-1'' 0"
    by (simp add: non_terminal_def fetched_status_def status_of_def)
  then have h2: "\<forall>j<1. non_terminal ?w ''i-1'' j"
    by simp
  have h3: "fetched_status ?w ''i-1'' 1 = Some ''error''"
    by (simp add: fetched_status_def status_of_def)
  have T: "tick_time ?w ''i-1'' 1 0 k = int k + 1" for k
    by (simp add: tick_time_instant)
  have h4: "\<not> done_ready None (tick_time ?w ''i-1'' 1 0 1)"
    by (simp add: done_ready_def)
  have upt: "[0..<2] = [0, 1::nat]"
    by code_simp
  show ?thesis
    using error_after_pending [OF h1 h2 h3 h4, of "''gpu''"] h1 n0 h3 h4
    by (simp add: T upt) blast
qed

section \<open>The deadline\<close>

text \<open>
  C7, as the code has it. Let the \<^verbatim>\<open>select\<close> take the \<^verbatim>\<open>ctx.Done()\<close> case whenever that case
  is ready. Then \<^verbatim>\<open>pollInstanceStatus\<close> under a context that is done at \<open>dl\<close> returns, and
  every call of \<^verbatim>\<open>GetInstance\<close> of the session starts before \<open>dl\<close>. The session ends in
  the \<^verbatim>\<open>ctx.Done()\<close> case exactly when none of its fetches has reported a terminal status
  or failed; it then returns the context's error (\<^verbatim>\<open>context.DeadlineExceeded\<close> for a
  deadline), no earlier than \<open>dl\<close>.
\<close>

theorem deadline_with_done_first:
  assumes "0 < interval" and "\<forall>n. select_done w n"
  shows "\<exists>r. pollInstanceStatus w (Some (dl, e)) name instanceID interval t0 = Some (Inr r)
           \<and> (\<forall>t\<in>set (fetch_calls r). t < dl)
           \<and> (exit_at r = ExitCtxDone) =
               (\<forall>n<length (fetch_calls r). non_terminal w instanceID n)
           \<and> (exit_at r = ExitCtxDone \<longrightarrow> ret r = Some e \<and> dl \<le> returned_at r)"
proof -
  have "\<forall>t\<in>set (fetch_times (poll_start interval t0)). t < dl"
    and "\<forall>n<length (fetch_times (poll_start interval t0)). non_terminal w instanceID n"
    by (simp_all add: poll_start_def)
  from done_first_run [OF assms this, of e name]
  show ?thesis
    using assms(1) by (simp add: pollInstanceStatus_def)
qed

text \<open>
  The theorem at work: interval 1, deadline 2, every status \<open>pending\<close>, every fetch
  instantaneous. At instant 2 the second tick and the deadline are ready together; the
  \<^verbatim>\<open>select\<close> takes \<^verbatim>\<open>ctx.Done()\<close> and the session ends after one fetch.
\<close>

theorem deadline_with_done_first_witness:
  "(0::int) < 1
   \<and> (\<exists>r. pollInstanceStatus
              \<lparr>GetInstance = (\<lambda>a j. (0, Inr [''status'' \<mapsto> JString ''pending''])),
               select_done = (\<lambda>j. True)\<rparr>
              (Some (2, DeadlineExceeded)) ''gpu'' ''i-1'' 1 0 = Some (Inr r)
          \<and> ret r = Some DeadlineExceeded \<and> exit_at r = ExitCtxDone
          \<and> fetch_calls r = [1] \<and> returned_at r = 2)"
proof -
  let ?w = "\<lparr>GetInstance = (\<lambda>a j. (0::nat, Inr [''status'' \<mapsto> JString ''pending'']))
                 :: string \<Rightarrow> nat \<Rightarrow> nat \<times> (go_error + info),
            select_done = (\<lambda>j::nat. True)\<rparr>"
  have h1: "(0::int) < 1" by simp
  have h2: "\<forall>n. select_done ?w n" by simp
  have run: "pollInstanceStatus ?w (Some (2, DeadlineExceeded)) ''gpu'' ''i-1'' 1 0 =
        Some (Inr \<lparr>ret = Some DeadlineExceeded, exit_at = ExitCtxDone, returned_at = 2,
                   fetch_calls = [1],
                   logged = [''instance [name: gpu, id: i-1] status=pending'']\<rparr>)"
    by (simp add: poll_eval pollLoop.simps)
  show ?thesis
    using deadline_with_done_first [OF h1 h2, of 2 DeadlineExceeded "''gpu''" "''i-1''" 0] run
    by simp
qed

text \<open>
  C7 as it is stated fails on two runs with interval 1 and deadline 2. In the first,
  every status is \<open>pending\<close> and the \<^verbatim>\<open>select\<close> of instant 2 takes \<^verbatim>\<open>ctx.Done()\<close>: the
  loop times out after one fetch, not two. In the second, the first fetch lasts 2, so
  that on its return at instant 3 a tick is buffered and the deadline has passed; the
  \<^verbatim>\<open>select\<close> takes the tick, a fetch starts at 3, after the deadline, reports \<open>active\<close>
  and the loop returns nil instead of timing out.
\<close>

theorem deadline_counterexample:
  "pollInstanceStatus
     \<lparr>GetInstance = (\<lambda>a j. (0, Inr [''status'' \<mapsto> JString ''pending''])),
      select_done = (\<lambda>j. True)\<rparr>
     (WithTimeout None 0 2) ''gpu'' ''i-1'' 1 0
   = Some (Inr \<lparr>ret = Some DeadlineExceeded, exit_at = ExitCtxDone, returned_at = 2,
                fetch_calls = [1],
                logged = [''instance [name: gpu, id: i-1] status=pending'']\<rparr>)
   \<and> pollInstanceStatus
     \<lparr>GetInstance = (\<lambda>a j. if j = 0 then (2, Inr [''status'' \<mapsto> JString ''pending''])
                             else (0, Inr [''status'' \<mapsto> JString ''active''])),
      select_done = (\<lambda>j. False)\<rparr>
     (WithTimeout None 0 2) ''gpu'' ''i-1'' 1 0
   = Some (Inr \<lparr>ret = None, exit_at = ExitActive, returned_at = 3,
                fetch_calls = [1, 3],
                logged = [''instance [name: gpu, id: i-1] status=pending'',
                          ''instance [name: gpu, id: i-1] status=active'']\<rparr>)"
  by (simp add: poll_eval pollLoop.simps)

text \<open>
  When the \<^verbatim>\<open>select\<close> of instant 2 takes the tick instead, the first scenario does end
  after two fetches.
\<close>

lemma scenario_tick_first:
  "pollInstanceStatus
     \<lparr>GetInstance = (\<lambda>a j. (0, Inr [''status'' \<mapsto> JString ''pending''])),
      select_done = (\<lambda>j. False)\<rparr>
     (WithTimeout None 0 2) ''gpu'' ''i-1'' 1 0
   = Some (Inr \<lparr>ret = Some DeadlineExceeded, exit_at = ExitCtxDone, returned_at = 2,
                fetch_calls = [1, 2],
                logged = [''instance [name: gpu, id: i-1] status=pending'',
                          ''instance [name: gpu, id: i-1] status=pending'']\<rparr>)"
  by (simp add: poll_eval pollLoop.simps)

section \<open>What the caller receives\<close>

text \<open>
  C2, as the code has it. The value that \<^verbatim>\<open>pollInstanceStatus\<close> returns is fixed by the
  \<^verbatim>\<open>return\<close> statement that ends the loop: nil from the \<open>active\<close> branch; the error string
  \<open>instance <id> is in error state\<close> from the \<open>error\<close> branch; the error of the context,
  which is done by then, from the \<^verbatim>\<open>ctx.Done()\<close> case; and the error that \<^verbatim>\<open>GetInstance\<close>
  returned, unchanged, when a fetch fails.
\<close>

theorem returned_value_by_exit:
  assumes "pollInstanceStatus w ctx name instanceID interval t0 = Some (Inr r)"
  shows "(case exit_at r of
            ExitActive \<Rightarrow> ret r = None
          | ExitErrorState \<Rightarrow>
              ret r = Some (ErrorString (''instance '' @ instanceID @ '' is in error state''))
          | ExitCtxDone \<Rightarrow> \<exists>t e. ctx = Some (t, e) \<and> t \<le> returned_at r \<and> ret r = Some e
          | ExitFetchError \<Rightarrow>
              \<exists>k d err. GetInstance w instanceID k = (d, Inl err) \<and> ret r = Some err)"
proof -
  from assms have "pollLoop w ctx name instanceID interval (poll_start interval t0) = Some r"
    by (auto simp: pollInstanceStatus_def split: if_splits)
  then obtain n where
    "poll_iters w ctx name instanceID interval n (poll_start interval t0) = Inl r"
    using pollLoop_Some_iters by blast
  then obtain s where "poll_iter w ctx name instanceID interval s = Inl r"
    using poll_iters_Inl_iter by blast
  then show ?thesis
    by (rule poll_iter_Inl_value)
qed

text \<open>The theorem at work: a fetch whose transport fails.\<close>

theorem returned_value_by_exit_witness:
  "pollInstanceStatus
     \<lparr>GetInstance = (\<lambda>a j. (0, makeRequest (\<lambda>body. Inr Map.empty) (DoFailed (ErrorString ''EOF'')))),
      select_done = (\<lambda>j. False)\<rparr>
     (Some (20, Canceled)) ''gpu'' ''i-1'' 15 0
   = Some (Inr \<lparr>ret = Some (WrapError ''failed to make request: EOF'' (ErrorString ''EOF'')),
                exit_at = ExitFetchError, returned_at = 15, fetch_calls = [15],
                logged = []\<rparr>)
   \<and> (\<exists>k d err.
         GetInstance
           \<lparr>GetInstance = (\<lambda>a j. (0, makeRequest (\<lambda>body. Inr Map.empty) (DoFailed (ErrorString ''EOF'')))),
            select_done = (\<lambda>j. False)\<rparr> ''i-1'' k = (d, Inl err)
         \<and> Some (WrapError ''failed to make request: EOF'' (ErrorString ''EOF'')) = Some err)"
proof -
  let ?w = "\<lparr>GetInstance = (\<lambda>a j. (0::nat, makeRequest (\<lambda>body. Inr Map.empty) (DoFailed (ErrorString ''EOF''))))
                 :: string \<Rightarrow> nat \<Rightarrow> nat \<times> (go_error + info),
            select_done = (\<lambda>j::nat. False)\<rparr>"
  let ?r = "\<lparr>ret = Some (WrapError ''failed to make request: EOF'' (ErrorString ''EOF'')),
                exit_at = ExitFetchError, returned_at = 15, fetch_calls = [15],
                logged = []\<rparr>"
  have run: "pollInstanceStatus ?w (Some (20, Canceled)) ''gpu'' ''i-1'' 15 0 = Some (Inr ?r)"
    by (simp add: poll_eval pollLoop.simps makeRequest_def)
  show ?thesis
    using returned_value_by_exit [OF run] run by simp
qed

text \<open>
  C2 as it is stated fails: a run that ends in the \<open>error\<close> branch and a run that ends on
  a fetch that the API answers with status 500 both return a plain error string; the
  two values are of the same variant and differ in their message only.
\<close>

theorem outcomes_counterexample:
  "pollInstanceStatus
     \<lparr>GetInstance = (\<lambda>a j. (0, Inr [''status'' \<mapsto> JString ''error''])),
      select_done = (\<lambda>j. False)\<rparr>
     None ''gpu'' ''i-1'' 1 0
   = Some (Inr \<lparr>ret = Some (ErrorString ''instance i-1 is in error state''),
                exit_at = ExitErrorState, returned_at = 1, fetch_calls = [1],
                logged = [''instance [name: gpu, id: i-1] status=error'']\<rparr>)
   \<and> pollInstanceStatus
     \<lparr>GetInstance = (\<lambda>a j. (0, makeRequest (\<lambda>body. Inr Map.empty) (Response 500 ''boom''))),
      select_done = (\<lambda>j. False)\<rparr>
     None ''gpu'' ''i-1'' 1 0
   = Some (Inr \<lparr>ret = Some (ErrorString ''API request failed with status 500: boom''),
                exit_at = ExitFetchError, returned_at = 1, fetch_calls = [1],
                logged = []\<rparr>)
   \<and> variant (ErrorString ''instance i-1 is in error state'')
     = variant (ErrorString ''API request failed with status 500: boom'')"
  by (simp add: poll_eval pollLoop.simps makeRequest_def decimal_500)

section \<open>Interval and deadline of Create\<close>

text \<open>
  C3, as the code has it. Let \<open>d\<close> be 3600 seconds when the \<^verbatim>\<open>timeouts\<close> block of the plan
  gives no create timeout, and the duration of its \<^verbatim>\<open>create\<close> attribute when it gives
  one. Once the instance is created, \<^verbatim>\<open>Create\<close> runs the poll that ticks every 15 seconds
  under the request's context with the timeout \<open>d\<close>, whatever else the plan holds: when
  that poll returns, \<^verbatim>\<open>Create\<close> returns, having called \<^verbatim>\<open>GetInstance\<close> once for each fetch
  of that poll after its \<^verbatim>\<open>CreateInstance\<close> (and once more to read the instance when the
  poll returned nil), and it reports \<open>Instance not ready\<close> with the poll's error when
  there is one.
\<close>

theorem create_poll_parameters:
  assumes "\<forall>vs. VolumeIds plan = ListValue vs \<longrightarrow> fst (ElementsAs fw vs) = []"
    and "result ''id'' = Some (JString instanceID)"
    and "(Timeouts plan = None \<or> Timeouts plan = Some StringNull
            \<or> Timeouts plan = Some StringUnknown) \<and> d = 3600 * Second
         \<or> (\<exists>s. Timeouts plan = Some (StringValue s) \<and> ParseDuration fw s = Inr d)"
    and "pollInstanceStatus w (WithTimeout ctx t d) (ValueString (Name plan)) instanceID
           (15 * Second) t = Some (Inr r)"
  shows "\<exists>res body. Create fw w ctx t ([], plan) (Inr result) = Some (Inr res)
           \<and> calls res =
               CallCreateInstance body # map (\<lambda>_. CallGetInstance instanceID) (fetch_calls r) @
               (if ret r = None then [CallGetInstance instanceID] else [])
           \<and> (case ret r of
                 Some err \<Rightarrow>
                   diagnostics res =
                     [(''Instance not ready'',
                       ''timed out waiting for '' @ instanceID @ '' to become active: '' @
                       Error err)]
               | None \<Rightarrow> True)"
  using assms by (rule Create_polls [where result = result and plan = plan and fw = fw and d = d])

text \<open>
  The theorem at work: the README's plan with \<^verbatim>\<open>create = "90s"\<close> and an instance that stays
  \<open>pending\<close>. Ticks at 15, 30, 45, 60 and 75 seconds, the deadline at 90: five status
  requests, then the timeout.
\<close>

theorem create_poll_parameters_witness:
  "ParseDuration \<lparr>ElementsAs = (\<lambda>vs. ([], map ValueString vs)),
                  ParseDuration = (\<lambda>s. if s = ''90s'' then Inr (90 * Second)
                                        else Inl (ErrorString ''invalid duration''))\<rparr> ''90s''
     = Inr (90 * Second)
   \<and> (\<exists>res body.
        Create \<lparr>ElementsAs = (\<lambda>vs. ([], map ValueString vs)),
                ParseDuration = (\<lambda>s. if s = ''90s'' then Inr (90 * Second)
                                      else Inl (ErrorString ''invalid duration''))\<rparr>
          \<lparr>GetInstance = (\<lambda>a j. (0, Inr [''status'' \<mapsto> JString ''pending''])),
           select_done = (\<lambda>j. True)\<rparr>
          None 0 ([], readme_plan\<lparr>Timeouts := Some (StringValue ''90s'')\<rparr>)
          (Inr [''id'' \<mapsto> JString ''i-1'']) = Some (Inr res)
        \<and> calls res = CallCreateInstance body # replicate 5 (CallGetInstance ''i-1'')
        \<and> diagnostics res =
            [(''Instance not ready'',
              ''timed out waiting for i-1 to become active: context deadline exceeded'')])"
proof -
  let ?fw = "\<lparr>ElementsAs = (\<lambda>vs. ([], map ValueString vs)),
             ParseDuration = (\<lambda>s. if s = ''90s'' then Inr (90 * Second)
                                   else Inl (ErrorString ''invalid duration''))\<rparr>"
  let ?w = "\<lparr>GetInstance = (\<lambda>a j. (0, Inr [''status'' \<mapsto> JString ''pending'']))
                 :: string \<Rightarrow> nat \<Rightarrow> nat \<times> (go_error + info),
            select_done = (\<lambda>j::nat. True)\<rparr>"
  let ?plan = "readme_plan\<lparr>Timeouts := Some (StringValue ''90s'')\<rparr>"
  let ?line = "''instance [name: terraform-test-instance, id: i-1] status=pending''"
  let ?r = "\<lparr>ret = Some DeadlineExceeded, exit_at = ExitCtxDone, returned_at = 90 * Second,
             fetch_calls = [15 * Second, 30 * Second, 45 * Second, 60 * Second, 75 * Second],
             logged = [?line, ?line, ?line, ?line, ?line]\<rparr>"
  have h0: "ParseDuration ?fw ''90s'' = Inr (90 * Second)"
    by simp
  have h1: "\<forall>vs. VolumeIds ?plan = ListValue vs \<longrightarrow> fst (ElementsAs ?fw vs) = []"
    by simp
  have h2: "[''id'' \<mapsto> JString ''i-1''] ''id'' = Some (JString ''i-1'')"
    by simp
  have h3: "(Timeouts ?plan = None \<or> Timeouts ?plan = Some StringNull
            \<or> Timeouts ?plan = Some StringUnknown) \<and> 90 * Second = 3600 * Second
         \<or> (\<exists>s. Timeouts ?plan = Some (StringValue s) \<and> ParseDuration ?fw s = Inr (90 * Second))"
    by simp
  have h4: "pollInstanceStatus ?w (WithTimeout None 0 (90 * Second)) (ValueString (Name ?plan))
              ''i-1'' (15 * Second) 0 = Some (Inr ?r)"
    by (simp add: poll_eval pollLoop.simps Second_def readme_plan_def)
  have "\<exists>res body. Create ?fw ?w None 0 ([], ?plan) (Inr [''id'' \<mapsto> JString ''i-1''])
                      = Some (Inr res)
           \<and> calls res = CallCreateInstance body # replicate 5 (CallGetInstance ''i-1'')
           \<and> diagnostics res =
               [(''Instance not ready'',
                 ''timed out waiting for i-1 to become active: context deadline exceeded'')]"
    using create_poll_parameters
      [where result = "[''id'' \<mapsto> JString ''i-1'']" and plan = ?plan and fw = ?fw
         and d = "90 * Second", OF h1 h2 h3 h4]
    by (simp add: numeral_eq_Suc)
  with h0 show ?thesis
    by blast
qed

text \<open>
  C3 as it is stated fails: there is no framework, plan, context or API behaviour for
  which the status requests of \<^verbatim>\<open>Create\<close> are other than those of the poll that ticks
  every 15 seconds. No configuration overrides the interval.
\<close>

theorem create_interval_counterexample:
  "\<not> (\<exists>fw w ctx t plan result instanceID d r.
        (\<forall>vs. VolumeIds plan = ListValue vs \<longrightarrow> fst (ElementsAs fw vs) = [])
        \<and> result ''id'' = Some (JString instanceID)
        \<and> ((Timeouts plan = None \<or> Timeouts plan = Some StringNull
               \<or> Timeouts plan = Some StringUnknown) \<and> d = 3600 * Second
            \<or> (\<exists>s. Timeouts plan = Some (StringValue s) \<and> ParseDuration fw s = Inr d))
        \<and> pollInstanceStatus w (WithTimeout ctx t d) (ValueString (Name plan)) instanceID
             (15 * Second) t = Some (Inr r)
        \<and> \<not> (\<exists>res body. Create fw w ctx t ([], plan) (Inr result) = Some (Inr res)
                \<and> calls res =
                    CallCreateInstance body #
                    map (\<lambda>_. CallGetInstance instanceID) (fetch_calls r) @
                    (if ret r = None then [CallGetInstance instanceID] else [])))"
proof
  assume "\<exists>fw w ctx t plan result instanceID d r.
        (\<forall>vs. VolumeIds plan = ListValue vs \<longrightarrow> fst (ElementsAs fw vs) = [])
        \<and> result ''id'' = Some (JString instanceID)
        \<and> ((Timeouts plan = None \<or> Timeouts plan = Some StringNull
               \<or> Timeouts plan = Some StringUnknown) \<and> d = 3600 * Second
            \<or> (\<exists>s. Timeouts plan = Some (StringValue s) \<and> ParseDuration fw s = Inr d))
        \<and> pollInstanceStatus w (WithTimeout ctx t d) (ValueString (Name plan)) instanceID
             (15 * Second) t = Some (Inr r)
        \<and> \<not> (\<exists>res body. Create fw w ctx t ([], plan) (Inr result) = Some (Inr res)
                \<and> calls res =
                    CallCreateInstance body #
                    map (\<lambda>_. CallGetInstance instanceID) (fetch_calls r) @
                    (if ret r = None then [CallGetInstance instanceID] else []))"
  then obtain fw w ctx t plan result instanceID d r where
    a: "\<forall>vs. VolumeIds plan = ListValue vs \<longrightarrow> fst (ElementsAs fw vs) = []"
       "result ''id'' = Some (JString instanceID)"
       "(Timeouts plan = None \<or> Timeouts plan = Some StringNull
               \<or> Timeouts plan = Some StringUnknown) \<and> d = 3600 * Second
            \<or> (\<exists>s. Timeouts plan = Some (StringValue s) \<and> ParseDuration fw s = Inr d)"
       "pollInstanceStatus w (WithTimeout ctx t d) (ValueString (Name plan)) instanceID
             (15 * Second) t = Some (Inr r)"
    and b: "\<not> (\<exists>res body. Create fw w ctx t ([], plan) (Inr result) = Some (Inr res)
                \<and> calls res =
                    CallCreateInstance body #
                    map (\<lambda>_. CallGetInstance instanceID) (fetch_calls r) @
                    (if ret r = None then [CallGetInstance instanceID] else []))"
    by blast
  from Create_polls [where result = result and plan = plan and fw = fw and d = d, OF a] b
  show False
    by blast
qed

section \<open>The request body of Update\<close>

text \<open>
  C10. Every \<^verbatim>\<open>UpdateInstance\<close> call that \<^verbatim>\<open>Update\<close> makes carries the request body
  that holds the key \<open>name\<close> exactly when the name of the plan differs from the name of
  the state, and no other key: the body is empty when the names are equal, and is the
  single entry \<open>name\<close> with the planned name when they differ.
\<close>

theorem update_body_is_name_only:
  "\<forall>iid b. CallUpdateInstance iid b \<in> set (calls (Update (pd, plan) (sd, state) updated fetched))
     \<longrightarrow> b = Update_requestBody plan state
         \<and> (''name'' \<in> dom b \<longleftrightarrow> Name plan \<noteq> Name state)
         \<and> dom b \<subseteq> {''name''}
         \<and> (Name plan = Name state \<longrightarrow> b = Map.empty)
         \<and> (Name plan \<noteq> Name state \<longrightarrow> b = [''name'' \<mapsto> JString (ValueString (Name plan))])"
proof (intro allI impI)
  fix iid b
  assume "CallUpdateInstance iid b \<in> set (calls (Update (pd, plan) (sd, state) updated fetched))"
  then have b: "b = Update_requestBody plan state"
    by (auto simp: Update_def Let_def split: if_splits option.splits sum.splits)
  show "b = Update_requestBody plan state
         \<and> (''name'' \<in> dom b \<longleftrightarrow> Name plan \<noteq> Name state)
         \<and> dom b \<subseteq> {''name''}
         \<and> (Name plan = Name state \<longrightarrow> b = Map.empty)
         \<and> (Name plan \<noteq> Name state \<longrightarrow> b = [''name'' \<mapsto> JString (ValueString (Name plan))])"
    unfolding b by (simp add: Update_requestBody_def Equal_iff)
qed

text \<open>The theorem at work: a plan that renames the instance, and one that does not.\<close>

theorem update_body_is_name_only_witness:
  "calls (Update ([], readme_plan\<lparr>Name := StringValue ''renamed''\<rparr>)
                 ([], readme_plan\<lparr>Id := StringValue ''i-1''\<rparr>) None
                 (Inr [''name'' \<mapsto> JString ''renamed'']))
     = [CallUpdateInstance ''i-1'' [''name'' \<mapsto> JString ''renamed''], CallGetInstance ''i-1'']
   \<and> ''name'' \<in> dom [''name'' \<mapsto> JString ''renamed'']
   \<and> calls (Update ([], readme_plan) ([], readme_plan\<lparr>Id := StringValue ''i-1''\<rparr>) None
                 (Inr [''name'' \<mapsto> JString ''terraform-test-instance'']))
     = [CallUpdateInstance ''i-1'' Map.empty, CallGetInstance ''i-1'']"
proof -
  let ?plan = "readme_plan\<lparr>Name := StringValue ''renamed''\<rparr>"
  let ?state = "readme_plan\<lparr>Id := StringValue ''i-1''\<rparr>"
  have c: "calls (Update ([], ?plan) ([], ?state) None (Inr [''name'' \<mapsto> JString ''renamed'']))
     = [CallUpdateInstance ''i-1'' [''name'' \<mapsto> JString ''renamed''], CallGetInstance ''i-1'']"
    by (simp add: Update_def Update_requestBody_def readme_plan_def)
  have c': "calls (Update ([], readme_plan) ([], ?state) None
                 (Inr [''name'' \<mapsto> JString ''terraform-test-instance'']))
     = [CallUpdateInstance ''i-1'' Map.empty, CallGetInstance ''i-1'']"
    by (simp add: Update_def Update_requestBody_def readme_plan_def)
  have "CallUpdateInstance ''i-1'' [''name'' \<mapsto> JString ''renamed'']
        \<in> set (calls (Update ([], ?plan) ([], ?state) None (Inr [''name'' \<mapsto> JString ''renamed''])))"
    by (simp add: c)
  with update_body_is_name_only [of "[]" ?plan "[]" ?state None "Inr [''name'' \<mapsto> JString ''renamed'']"]
  have "(''name'' \<in> dom [''name'' \<mapsto> JString ''renamed'']) = (Name ?plan \<noteq> Name ?state)"
    by blast
  then have "''name'' \<in> dom [''name'' \<mapsto> JString ''renamed'']"
    by (simp add: readme_plan_def)
  with c c' show ?thesis by simp
qed

section \<open>Create after a timeout\<close>

text \<open>
  C1 against the code. \<^verbatim>\<open>Create\<close> on the README's plan, the API answering the creation
  with the id \<open>i-1\<close> and every status request with \<open>pending\<close>: after 60 minutes the poll
  times out and \<^verbatim>\<open>Create\<close> reports \<open>Instance not ready\<close>, having called \<^verbatim>\<open>CreateInstance\<close>
  once and \<^verbatim>\<open>GetInstance\<close> 239 times. It has not called \<^verbatim>\<open>DeleteInstance\<close>: the deletion
  that the claim and the changelog describe is not attempted.
\<close>

theorem create_timeout_leaves_instance:
  "\<exists>res. Create fw
            \<lparr>GetInstance = (\<lambda>a j. (0, Inr [''status'' \<mapsto> JString ''pending''])),
             select_done = (\<lambda>j. True)\<rparr>
            None 0 ([], readme_plan) (Inr [''id'' \<mapsto> JString ''i-1'']) = Some (Inr res)
     \<and> diagnostics res =
         [(''Instance not ready'',
           ''timed out waiting for i-1 to become active: context deadline exceeded'')]
     \<and> calls res =
         CallCreateInstance (Create_requestBody readme_plan) #
         replicate 239 (CallGetInstance ''i-1'')
     \<and> CallDeleteInstance ''i-1'' \<notin> set (calls res)"
proof -
  let ?w = "\<lparr>GetInstance = (\<lambda>a j. (0, Inr [''status'' \<mapsto> JString ''pending'']))
                     :: string \<Rightarrow> nat \<Rightarrow> nat \<times> (go_error + info),
                  select_done = (\<lambda>j::nat. True)\<rparr>"
  obtain r where r: "pollInstanceStatus ?w (Some (60 * Minute, DeadlineExceeded))
                       ''terraform-test-instance'' ''i-1'' (15 * Second) 0 = Some (Inr r)"
    "ret r = Some DeadlineExceeded" "length (fetch_calls r) = 239"
    using pending_until_default_deadline [of "''terraform-test-instance''" "''i-1''"] by blast
  have gets: "map (\<lambda>_. CallGetInstance ''i-1'') (fetch_calls r) =
              replicate 239 (CallGetInstance ''i-1'')"
    using r(3) by (simp add: map_replicate_const)
  have plan: "VolumeIds readme_plan = ListNull" "Timeouts readme_plan = None"
    "Name readme_plan = StringValue ''terraform-test-instance''"
    by (simp_all add: readme_plan_def)
  have "Create fw ?w None 0 ([], readme_plan) (Inr [''id'' \<mapsto> JString ''i-1'']) =
        Some (Inr \<lparr>diagnostics =
                     [(''Instance not ready'',
                       ''timed out waiting for i-1 to become active: context deadline exceeded'')],
                   calls = CallCreateInstance (Create_requestBody readme_plan) #
                           replicate 239 (CallGetInstance ''i-1''),
                   instanceInfo = None\<rparr>)"
    using r(1,2) gets plan
    by (simp add: Create_def Let_def Timeouts_Create_def Create_poll_args_def WithTimeout_def
        defaultCreateTimeout_def)
  then show ?thesis by simp
qed

end
